theory Spec2Isabelle
  imports Complex_Main
begin

section \<open>Numeric values\<close>

text \<open>
  The engine of \<^verbatim>\<open>compute_weat.py\<close> computes on numpy float64 values. Finite values are
  modelled as exact reals (rounding and signed zeros are not modelled); the non-finite
  values that numpy produces without raising (\<^verbatim>\<open>nan\<close> for the mean of an empty slice and
  for 0/0, \<^verbatim>\<open>inf\<close> for x/0) are kept as values of their own, because the code never
  checks for them. Sums of reals do not depend on the order of their terms, sums of
  float64 values do: no statement below compares two sums of the same terms taken in
  different orders.
\<close>

datatype npfloat = Fin real | PInf | NInf | NaN

datatype error = ValueError | AssertionError | IndexError | OverflowError | ZeroDivisionError

fun np_neg :: "npfloat \<Rightarrow> npfloat" where
  "np_neg (Fin a) = Fin (- a)"
| "np_neg PInf = NInf"
| "np_neg NInf = PInf"
| "np_neg NaN = NaN"

fun np_add :: "npfloat \<Rightarrow> npfloat \<Rightarrow> npfloat" where
  "np_add (Fin a) (Fin b) = Fin (a + b)"
| "np_add NaN _ = NaN"
| "np_add _ NaN = NaN"
| "np_add PInf NInf = NaN"
| "np_add NInf PInf = NaN"
| "np_add PInf _ = PInf"
| "np_add _ PInf = PInf"
| "np_add NInf _ = NInf"
| "np_add _ NInf = NInf"

definition np_sub :: "npfloat \<Rightarrow> npfloat \<Rightarrow> npfloat" where
  "np_sub a b = np_add a (np_neg b)"

fun np_mul :: "npfloat \<Rightarrow> npfloat \<Rightarrow> npfloat" where
  "np_mul (Fin a) (Fin b) = Fin (a * b)"
| "np_mul NaN _ = NaN"
| "np_mul _ NaN = NaN"
| "np_mul (Fin a) PInf = (if a = 0 then NaN else if 0 < a then PInf else NInf)"
| "np_mul (Fin a) NInf = (if a = 0 then NaN else if 0 < a then NInf else PInf)"
| "np_mul PInf (Fin b) = (if b = 0 then NaN else if 0 < b then PInf else NInf)"
| "np_mul NInf (Fin b) = (if b = 0 then NaN else if 0 < b then NInf else PInf)"
| "np_mul PInf PInf = PInf"
| "np_mul NInf NInf = PInf"
| "np_mul PInf NInf = NInf"
| "np_mul NInf PInf = NInf"

text \<open>Division of numpy floats never raises: a zero divisor gives \<^verbatim>\<open>nan\<close> or an infinity.\<close>

fun np_div :: "npfloat \<Rightarrow> npfloat \<Rightarrow> npfloat" where
  "np_div (Fin a) (Fin b) =
     (if b = 0 then (if a = 0 then NaN else if 0 < a then PInf else NInf) else Fin (a / b))"
| "np_div NaN _ = NaN"
| "np_div _ NaN = NaN"
| "np_div (Fin a) _ = Fin 0"
| "np_div PInf (Fin b) = (if 0 \<le> b then PInf else NInf)"
| "np_div NInf (Fin b) = (if 0 \<le> b then NInf else PInf)"
| "np_div _ _ = NaN"

fun np_sqrt :: "npfloat \<Rightarrow> npfloat" where
  "np_sqrt (Fin a) = (if a < 0 then NaN else Fin (sqrt a))"
| "np_sqrt PInf = PInf"
| "np_sqrt NInf = NaN"
| "np_sqrt NaN = NaN"

text \<open>Comparisons with \<^verbatim>\<open>nan\<close> are false, also \<^verbatim>\<open>nan == nan\<close>.\<close>

fun np_gt :: "npfloat \<Rightarrow> npfloat \<Rightarrow> bool" where
  "np_gt NaN _ = False"
| "np_gt _ NaN = False"
| "np_gt (Fin a) (Fin b) = (b < a)"
| "np_gt PInf PInf = False"
| "np_gt PInf _ = True"
| "np_gt _ PInf = False"
| "np_gt NInf _ = False"
| "np_gt _ NInf = True"

definition np_eq :: "npfloat \<Rightarrow> npfloat \<Rightarrow> bool" where
  "np_eq a b = (a \<noteq> NaN \<and> a = b)"

definition np_sum :: "npfloat list \<Rightarrow> npfloat" where
  "np_sum xs = foldl np_add (Fin 0) xs"

text \<open>\<^verbatim>\<open>np.mean\<close>: the sum divided by the count; the mean of nothing is 0/0, \<^verbatim>\<open>nan\<close>.\<close>

definition np_mean :: "npfloat list \<Rightarrow> npfloat" where
  "np_mean xs = np_div (np_sum xs) (Fin (real (length xs)))"

text \<open>\<^verbatim>\<open>np.std(xs, ddof=1)\<close>: the divisor is \<^verbatim>\<open>max(N - 1, 0)\<close>.\<close>

definition np_std :: "npfloat list \<Rightarrow> npfloat" where
  "np_std xs =
     (let arrmean = np_mean xs;
          x = map (\<lambda>v. np_sub v arrmean) xs;
          sq = map (\<lambda>v. np_mul v v) x
      in np_sqrt (np_div (np_sum sq) (Fin (real (length xs - 1)))))"

text \<open>Python's \<^verbatim>\<open>int(float)\<close> truncates towards zero and raises on \<^verbatim>\<open>inf\<close> and \<^verbatim>\<open>nan\<close>.\<close>

fun py_int :: "npfloat \<Rightarrow> error + int" where
  "py_int (Fin a) = Inr (if 0 \<le> a then \<lfloor>a\<rfloor> else \<lceil>a\<rceil>)"
| "py_int PInf = Inl OverflowError"
| "py_int NInf = Inl OverflowError"
| "py_int NaN = Inl ValueError"

text \<open>Python's \<^verbatim>\<open>/\<close> on two ints.\<close>

definition py_truediv :: "nat \<Rightarrow> nat \<Rightarrow> error + npfloat" where
  "py_truediv a b = (if b = 0 then Inl ZeroDivisionError else Inr (Fin (real a / real b)))"

section \<open>Arrays\<close>

text \<open>
  A two-dimensional array of shape \<open>(length rows, ncols)\<close>. The column count is kept
  apart from the rows because an array with no rows still has one.
\<close>

record array2 =
  ncols :: nat
  rows :: "real list list"

definition arange :: "nat \<Rightarrow> nat list" where
  "arange n = [0..<n]"

definition arange2 :: "nat \<Rightarrow> nat \<Rightarrow> nat list" where
  "arange2 a b = [a..<b]"

text \<open>\<^verbatim>\<open>np.concatenate\<close> along axis 0 raises when the other dimension differs.\<close>

definition concatenate :: "array2 \<Rightarrow> array2 \<Rightarrow> error + array2" where
  "concatenate a b =
     (if ncols a \<noteq> ncols b then Inl ValueError
      else Inr \<lparr>ncols = ncols a, rows = rows a @ rows b\<rparr>)"

definition dot :: "real list \<Rightarrow> real list \<Rightarrow> real" where
  "dot u v = sum_list (map2 (*) u v)"

definition normalize_row :: "real list \<Rightarrow> real list" where
  "normalize_row v = (let n = sqrt (dot v v) in if n = 0 then v else map (\<lambda>x. x / n) v)"

text \<open>
  \<^verbatim>\<open>sklearn.metrics.pairwise.cosine_similarity\<close>: its input validation raises
  \<^verbatim>\<open>ValueError\<close> for an array with no rows or no columns and for differing column
  counts; rows are scaled to unit length (a zero row is left as it is) and multiplied.
\<close>

definition cosine_similarity :: "array2 \<Rightarrow> array2 \<Rightarrow> error + real list list" where
  "cosine_similarity xy ab =
     (if rows xy = [] \<or> ncols xy = 0 \<or> rows ab = [] \<or> ncols ab = 0 \<or> ncols xy \<noteq> ncols ab
      then Inl ValueError
      else Inr (map (\<lambda>x. map (\<lambda>a. dot (normalize_row x) (normalize_row a)) (rows ab))
                  (rows xy)))"

text \<open>\<^verbatim>\<open>itertools.combinations\<close>, in its lexicographic order.\<close>

fun combinations :: "'a list \<Rightarrow> nat \<Rightarrow> 'a list list" where
  "combinations xs 0 = [[]]"
| "combinations [] (Suc k) = []"
| "combinations (x # xs) (Suc k) = map ((#) x) (combinations xs k) @ combinations xs (Suc k)"

section \<open>External library functions\<close>

text \<open>
  The functions of numpy's random module and of scipy that \<^verbatim>\<open>Test\<close> calls are parameters
  of the model. \<open>shuffle_draw k m\<close> is the permutation of \<open>[0..<m]\<close> that the \<open>k\<close>-th
  call of \<^verbatim>\<open>np.random.shuffle\<close> applies to an array of length \<open>m\<close>; the state of the
  random generator is the number of calls made so far. \<open>binom\<close> is
  \<^verbatim>\<open>scipy.special.binom\<close>, which returns a float64; \<open>shapiro\<close> is
  \<^verbatim>\<open>scipy.stats.shapiro\<close> and \<open>norm_sf\<close> is \<^verbatim>\<open>scipy.stats.norm.sf(x, loc, scale)\<close>.
  What a statement needs of them is a hypothesis of that statement: that every shuffle is
  a permutation (\<open>valid_rng\<close>), or that \<open>binom\<close> returns the exact coefficient at the
  arguments in question.
\<close>

record lib =
  shuffle_draw :: "nat \<Rightarrow> nat \<Rightarrow> nat list"
  binom :: "nat \<Rightarrow> nat \<Rightarrow> npfloat"
  shapiro :: "npfloat list \<Rightarrow> error + npfloat \<times> npfloat"
  norm_sf :: "npfloat \<Rightarrow> npfloat \<Rightarrow> npfloat \<Rightarrow> npfloat"

definition shuffle :: "lib \<Rightarrow> nat \<Rightarrow> 'a list \<Rightarrow> 'a list" where
  "shuffle l k xs = map (\<lambda>i. xs ! i) (shuffle_draw l k (length xs))"

definition valid_rng :: "lib \<Rightarrow> bool" where
  "valid_rng l = (\<forall>k m. distinct (shuffle_draw l k m) \<and> set (shuffle_draw l k m) = {0..<m})"

section \<open>The class Test\<close>

record test =
  X :: array2
  Y :: array2
  A :: array2
  B :: array2
  names :: "string list"
  similarity_matrix :: "real list list"
  s_AB :: "npfloat list"

definition similarities :: "test \<Rightarrow> error + real list list" where
  "similarities t =
     (case concatenate (X t) (Y t) of Inl e \<Rightarrow> Inl e
      | Inr xy \<Rightarrow>
        (case concatenate (A t) (B t) of Inl e \<Rightarrow> Inl e
         | Inr ab \<Rightarrow> cosine_similarity xy ab))"

text \<open>
  Indexing an array with an array of indices raises \<^verbatim>\<open>IndexError\<close> when an index is
  out of bounds; the indices here come from \<^verbatim>\<open>arange\<close>, \<^verbatim>\<open>combinations\<close> and
  \<^verbatim>\<open>shuffle\<close> and are never negative.
\<close>

definition s_wAB :: "test \<Rightarrow> nat list \<Rightarrow> error + npfloat list" where
  "s_wAB t w =
     (if \<exists>i\<in>set w. length (similarity_matrix t) \<le> i then Inl IndexError
      else Inr (map (\<lambda>i. np_sub
                  (np_mean (map Fin (take (length (rows (A t))) (similarity_matrix t ! i))))
                  (np_mean (map Fin (drop (length (rows (A t))) (similarity_matrix t ! i)))))
                w))"

definition calc_s_AB :: "test \<Rightarrow> error + test" where
  "calc_s_AB t =
     (case s_wAB t (arange (length (similarity_matrix t))) of Inl e \<Rightarrow> Inl e
      | Inr v \<Rightarrow> Inr (t\<lparr>s_AB := v\<rparr>))"

text \<open>
  \<^verbatim>\<open>reset_calc\<close> sets \<^verbatim>\<open>s_AB\<close> to \<^verbatim>\<open>None\<close> before \<^verbatim>\<open>calc_s_AB\<close> assigns it; nothing reads
  the field in between.
\<close>

definition reset_calc :: "test \<Rightarrow> error + test" where
  "reset_calc t =
     (case similarities t of Inl e \<Rightarrow> Inl e
      | Inr m \<Rightarrow> calc_s_AB (t\<lparr>similarity_matrix := m\<rparr>))"

text \<open>The constructor \<^verbatim>\<open>Test(X, Y, A, B, names=None)\<close>.\<close>

definition init :: "array2 \<Rightarrow> array2 \<Rightarrow> array2 \<Rightarrow> array2 \<Rightarrow> string list option \<Rightarrow> error + test" where
  "init x y a b names_arg =
     reset_calc \<lparr>X = x, Y = y, A = a, B = b,
       names = (case names_arg of None \<Rightarrow> [''X'', ''Y'', ''A'', ''B''] | Some ns \<Rightarrow> ns),
       similarity_matrix = [], s_AB = []\<rparr>"

definition s_XAB :: "test \<Rightarrow> nat list \<Rightarrow> error + npfloat" where
  "s_XAB t msk =
     (if \<exists>i\<in>set msk. length (s_AB t) \<le> i then Inl IndexError
      else Inr (np_sum (map (\<lambda>i. s_AB t ! i) msk)))"

definition s_XYAB :: "test \<Rightarrow> nat list \<Rightarrow> nat list \<Rightarrow> error + npfloat" where
  "s_XYAB t xm ym =
     (case s_XAB t xm of Inl e \<Rightarrow> Inl e
      | Inr sx \<Rightarrow> (case s_XAB t ym of Inl e \<Rightarrow> Inl e | Inr sy \<Rightarrow> Inr (np_sub sx sy)))"

subsection \<open>The p-value\<close>

text \<open>The counters \<open>(total_true, total_equal, total)\<close> and the body shared by both loops.\<close>

type_synonym counters = "nat \<times> nat \<times> nat"

definition count_step :: "npfloat \<Rightarrow> npfloat \<Rightarrow> counters \<Rightarrow> counters" where
  "count_step s si c =
     (case c of (total_true, total_equal, total_all) \<Rightarrow>
        if np_gt si s then (total_true + 1, total_equal, total_all + 1)
        else if np_eq si s then (total_true + 1, total_equal + 1, total_all + 1)
        else (total_true, total_equal, total_all + 1))"

text \<open>
  The loop \<^verbatim>\<open>for i in range(n_samples - 1)\<close> of the sampling branch. The last argument
  is the state of the random generator.
\<close>

fun sample_loop ::
  "lib \<Rightarrow> test \<Rightarrow> npfloat \<Rightarrow> nat \<Rightarrow> nat \<Rightarrow> nat \<Rightarrow> counters \<Rightarrow> nat \<Rightarrow> (error + counters) \<times> nat" where
  "sample_loop l t s sz len_xy 0 c k = (Inr c, k)"
| "sample_loop l t s sz len_xy (Suc m) c k =
     (let a = shuffle l k (arange len_xy);
          xi = take sz a
      in if 2 * length xi \<noteq> len_xy then (Inl AssertionError, Suc k)
         else (case s_XAB t xi of Inl e \<Rightarrow> (Inl e, Suc k)
               | Inr si \<Rightarrow> sample_loop l t s sz len_xy m (count_step s si c) (Suc k)))"

text \<open>
  The loop over \<^verbatim>\<open>it.combinations\<close> of the exact branch. \<^verbatim>\<open>np.array(())\<close> is an array
  of floats, which cannot index.
\<close>

fun exact_loop :: "test \<Rightarrow> npfloat \<Rightarrow> nat \<Rightarrow> nat list list \<Rightarrow> counters \<Rightarrow> error + counters" where
  "exact_loop t s len_xy [] c = Inr c"
| "exact_loop t s len_xy (xi # rest) c =
     (if 2 * length xi \<noteq> len_xy then Inl AssertionError
      else if xi = [] then Inl IndexError
      else (case s_XAB t xi of Inl e \<Rightarrow> Inl e
            | Inr si \<Rightarrow> exact_loop t s len_xy rest (count_step s si c)))"

text \<open>The loop \<^verbatim>\<open>for _ in range(n_samples)\<close> of the parametric test.\<close>

fun param_loop ::
  "lib \<Rightarrow> test \<Rightarrow> nat \<Rightarrow> nat \<Rightarrow> nat \<Rightarrow> npfloat list \<Rightarrow> nat \<Rightarrow> (error + npfloat list) \<times> nat" where
  "param_loop l t sz len_xy 0 samples k = (Inr samples, k)"
| "param_loop l t sz len_xy (Suc m) samples k =
     (let a = shuffle l k (arange len_xy);
          xi = take sz a;
          yi = drop sz a
      in if length xi \<noteq> length yi then (Inl AssertionError, Suc k)
         else (case s_XYAB t xi yi of Inl e \<Rightarrow> (Inl e, Suc k)
               | Inr si \<Rightarrow> param_loop l t sz len_xy m (samples @ [si]) (Suc k)))"

text \<open>
  \<^verbatim>\<open>num_partitions = int(scipy.special.binom(2 * size, size))\<close> and the test
  \<^verbatim>\<open>num_partitions > n_samples\<close>: \<open>True\<close> selects the sampling branch.
\<close>

definition branch_decision :: "lib \<Rightarrow> nat \<Rightarrow> int \<Rightarrow> error + bool" where
  "branch_decision l sz n_samples =
     (case py_int (binom l (2 * sz) sz) of Inl e \<Rightarrow> Inl e
      | Inr num_partitions \<Rightarrow> Inr (num_partitions > n_samples))"

definition p :: "lib \<Rightarrow> test \<Rightarrow> int \<Rightarrow> bool \<Rightarrow> nat \<Rightarrow> (error + npfloat) \<times> nat" where
  "p l t n_samples parametric k =
     (if length (rows (X t)) \<noteq> length (rows (Y t)) then (Inl AssertionError, k)
      else
        let sz = length (rows (X t)) in
        case concatenate (X t) (Y t) of Inl e \<Rightarrow> (Inl e, k)
        | Inr xy \<Rightarrow>
          if parametric then
            (case s_XYAB t (arange sz) (arange2 sz (sz + length (rows (Y t)))) of
               Inl e \<Rightarrow> (Inl e, k)
             | Inr s \<Rightarrow>
               (case param_loop l t sz (length (rows xy)) (nat n_samples) [] k of
                  (Inl e, k') \<Rightarrow> (Inl e, k')
                | (Inr samples, k') \<Rightarrow>
                  (case shapiro l samples of Inl e \<Rightarrow> (Inl e, k')
                   | Inr diagnostic \<Rightarrow>
                       (Inr (norm_sf l s (np_mean samples) (np_std samples)), k'))))
          else
            (case s_XAB t (arange sz) of Inl e \<Rightarrow> (Inl e, k)
             | Inr s \<Rightarrow>
               (case branch_decision l sz n_samples of Inl e \<Rightarrow> (Inl e, k)
                | Inr sampling \<Rightarrow>
                  (case (if sampling
                         then sample_loop l t s sz (length (rows xy)) (nat (n_samples - 1))
                                (1, 0, 1) k
                         else (exact_loop t s (length (rows xy))
                                 (combinations (arange (length (rows xy))) sz) (0, 0, 0), k))
                   of (Inl e, k') \<Rightarrow> (Inl e, k')
                    | (Inr (total_true, total_equal, total_all), k') \<Rightarrow>
                        (py_truediv total_true total_all, k')))))"

subsection \<open>The effect size and the driver\<close>

definition effect_size :: "test \<Rightarrow> error + npfloat" where
  "effect_size t =
     (case s_wAB t (arange (length (rows (X t)))) of Inl e \<Rightarrow> Inl e
      | Inr sx \<Rightarrow>
        (case s_wAB t (arange2 (length (rows (X t))) (length (similarity_matrix t))) of
           Inl e \<Rightarrow> Inl e
         | Inr sy \<Rightarrow> Inr (np_div (np_sub (np_mean sx) (np_mean sy)) (np_std (s_AB t)))))"

text \<open>The slice \<^verbatim>\<open>D[a:b, :]\<close> for \<open>a \<le> b\<close>.\<close>

definition slice_rows :: "array2 \<Rightarrow> nat \<Rightarrow> nat \<Rightarrow> array2" where
  "slice_rows d a b = \<lparr>ncols = ncols d, rows = take (b - a) (drop a (rows d))\<rparr>"

definition slice_from :: "array2 \<Rightarrow> nat \<Rightarrow> array2" where
  "slice_from d a = \<lparr>ncols = ncols d, rows = drop a (rows d)\<rparr>"

definition concatenate4 :: "array2 \<Rightarrow> array2 \<Rightarrow> array2 \<Rightarrow> array2 \<Rightarrow> error + array2" where
  "concatenate4 x y a b =
     (if ncols x \<noteq> ncols y \<or> ncols x \<noteq> ncols a \<or> ncols x \<noteq> ncols b then Inl ValueError
      else Inr \<lparr>ncols = ncols x, rows = rows x @ rows y @ rows a @ rows b\<rparr>)"

text \<open>
  The first half of \<^verbatim>\<open>run\<close> when \<^verbatim>\<open>randomized\<close> is set: the four sets are pooled,
  shuffled and cut again. An exception leaves the object as it is at that moment.
\<close>

definition randomize :: "lib \<Rightarrow> test \<Rightarrow> nat \<Rightarrow> (error + test) \<times> test \<times> nat" where
  "randomize l t k =
     (case concatenate4 (X t) (Y t) (A t) (B t) of Inl e \<Rightarrow> (Inl e, t, k)
      | Inr d \<Rightarrow>
        let d' = d\<lparr>rows := shuffle l k (rows d)\<rparr>;
            nx = length (rows (X t));
            na = length (rows (A t));
            t1 = t\<lparr>X := slice_rows d' 0 nx,
                   Y := slice_rows d' nx (2 * nx),
                   A := slice_rows d' (2 * nx) (2 * nx + na),
                   B := slice_from d' (2 * nx + na)\<rparr>
        in (case reset_calc t1 of Inl e \<Rightarrow> (Inl e, t1, Suc k)
            | Inr t2 \<Rightarrow> (Inr t2, t2, Suc k)))"

text \<open>
  \<^verbatim>\<open>run(randomized, n_samples, parametric)\<close> returns the pair \<^verbatim>\<open>(e, p)\<close> or the
  exception raised, the object after the call and the state of the random generator.
\<close>

definition run ::
  "lib \<Rightarrow> test \<Rightarrow> bool \<Rightarrow> int \<Rightarrow> bool \<Rightarrow> nat \<Rightarrow> (error + npfloat \<times> npfloat) \<times> test \<times> nat" where
  "run l t randomized n_samples parametric k =
     (case (if randomized then randomize l t k else (Inr t, t, k)) of
        (Inl e, t', k1) \<Rightarrow> (Inl e, t', k1)
      | (Inr t1, _, k1) \<Rightarrow>
        (case p l t1 n_samples parametric k1 of
           (Inl e, k2) \<Rightarrow> (Inl e, t1, k2)
         | (Inr pv, k2) \<Rightarrow>
           (case effect_size t1 of Inl e \<Rightarrow> (Inl e, t1, k2)
            | Inr ev \<Rightarrow>
              if randomized then
                (let t3 = t1\<lparr>X := X t, Y := Y t, A := A t, B := B t\<rparr>
                 in case reset_calc t3 of Inl e \<Rightarrow> (Inl e, t3, k2)
                    | Inr t4 \<Rightarrow> (Inr (ev, pv), t4, k2))
              else (Inr (ev, pv), t1, k2))))"

section \<open>Notions used in the statements\<close>

text \<open>The association score that \<^verbatim>\<open>s_wAB\<close> computes from one row of the matrix.\<close>

definition row_assoc :: "nat \<Rightarrow> real list \<Rightarrow> npfloat" where
  "row_assoc na r = np_sub (np_mean (map Fin (take na r))) (np_mean (map Fin (drop na r)))"

text \<open>
  The tie rule of both loops: a partition counts when \<^verbatim>\<open>si > s\<close> or \<^verbatim>\<open>si == s\<close>.
  \<open>extreme t s xi\<close> says so of the index set \<open>xi\<close>, \<open>tied t s xi\<close> that it is
  counted by the equality.
\<close>

definition extreme :: "test \<Rightarrow> npfloat \<Rightarrow> nat list \<Rightarrow> bool" where
  "extreme t s xi = (case s_XAB t xi of Inl e \<Rightarrow> False | Inr si \<Rightarrow> np_gt si s \<or> np_eq si s)"

definition tied :: "test \<Rightarrow> npfloat \<Rightarrow> nat list \<Rightarrow> bool" where
  "tied t s xi = (case s_XAB t xi of Inl e \<Rightarrow> False | Inr si \<Rightarrow> \<not> np_gt si s \<and> np_eq si s)"

text \<open>
  The index set \<^verbatim>\<open>Xi\<close> of the \<open>j\<close>-th draw made from generator state \<open>k\<close>:
  the first \<open>sz\<close> entries of the shuffled \<^verbatim>\<open>arange(len_xy)\<close>.
\<close>

definition drawn :: "lib \<Rightarrow> nat \<Rightarrow> nat \<Rightarrow> nat \<Rightarrow> nat \<Rightarrow> nat list" where
  "drawn l sz len_xy k j = take sz (shuffle l (k + j) (arange len_xy))"

section \<open>Concrete inputs\<close>

text \<open>
  The scenario of the specification: \<^verbatim>\<open>X = [[1,0],[0,1]]\<close>, \<^verbatim>\<open>Y = [[-1,0],[0,-1]]\<close>,
  \<^verbatim>\<open>A = [[1,0]]\<close>, \<^verbatim>\<open>B = [[-1,0]]\<close>, and the object that the constructor builds
  from it.
\<close>

definition scenario_X :: array2 where
  "scenario_X = \<lparr>ncols = 2, rows = [[1, 0], [0, 1]]\<rparr>"

definition scenario_Y :: array2 where
  "scenario_Y = \<lparr>ncols = 2, rows = [[-1, 0], [0, -1]]\<rparr>"

definition scenario_A :: array2 where
  "scenario_A = \<lparr>ncols = 2, rows = [[1, 0]]\<rparr>"

definition scenario_B :: array2 where
  "scenario_B = \<lparr>ncols = 2, rows = [[-1, 0]]\<rparr>"

definition scenario :: test where
  "scenario = \<lparr>X = scenario_X, Y = scenario_Y, A = scenario_A, B = scenario_B,
     names = [''X'', ''Y'', ''A'', ''B''],
     similarity_matrix = [[1, -1], [0, 0], [-1, 1], [0, 0]],
     s_AB = [Fin 2, Fin 0, Fin (-2), Fin 0]\<rparr>"

text \<open>
  One possible behaviour of the library: the \<open>k\<close>-th shuffle rotates by \<open>k\<close> places,
  \<^verbatim>\<open>binom\<close> returns the exact coefficient as long as it is below \<open>2 ^ 1024\<close>, the bound
  of the float64 range, and \<^verbatim>\<open>inf\<close> from there on, the normality test and the survival
  function return constants.
\<close>

definition binom_f64 :: "nat \<Rightarrow> nat \<Rightarrow> npfloat" where
  "binom_f64 n k = (if 2 ^ 1024 \<le> n choose k then PInf else Fin (real (n choose k)))"

definition lib_rotate :: lib where
  "lib_rotate = \<lparr>shuffle_draw = (\<lambda>k m. rotate k [0..<m]), binom = binom_f64,
     shapiro = (\<lambda>samples. Inr (Fin 1, Fin 1)), norm_sf = (\<lambda>x loc scale. Fin (1 / 2))\<rparr>"

text \<open>
  The same library with a \<^verbatim>\<open>binom\<close> that falls short of the exact coefficient by one
  hundred-thousandth, the way a float64 computation may.
\<close>

definition lib_low :: lib where
  "lib_low = lib_rotate\<lparr>binom := (\<lambda>n k. Fin (real (n choose k) - 1 / 100000))\<rparr>"


text \<open>
  An instance with an empty attribute set: \<^verbatim>\<open>A\<close> has shape \<open>(0, 2)\<close>. The constructor
  accepts it, and every association score is \<^verbatim>\<open>nan\<close>.
\<close>

definition single_X :: array2 where
  "single_X = \<lparr>ncols = 2, rows = [[1, 0]]\<rparr>"

definition single_Y :: array2 where
  "single_Y = \<lparr>ncols = 2, rows = [[0, 1]]\<rparr>"

definition empty_A :: array2 where
  "empty_A = \<lparr>ncols = 2, rows = []\<rparr>"

definition single_B :: array2 where
  "single_B = \<lparr>ncols = 2, rows = [[1, 0]]\<rparr>"

definition no_A_instance :: test where
  "no_A_instance = \<lparr>X = single_X, Y = single_Y, A = empty_A, B = single_B,
     names = [''X'', ''Y'', ''A'', ''B''],
     similarity_matrix = [[1], [0]],
     s_AB = [NaN, NaN]\<rparr>"

text \<open>The association score of a row as a real number, when both slices are non-empty.\<close>

definition assoc_real :: "nat \<Rightarrow> real list \<Rightarrow> real" where
  "assoc_real na r =
     sum_list (take na r) / real na - sum_list (drop na r) / real (length r - na)"

text \<open>
  An instance with 600 targets in each of \<open>X\<close> and \<open>Y\<close>; \<open>C(1200, 600)\<close> is beyond the
  range of float64.
\<close>

definition big_X :: array2 where
  "big_X = \<lparr>ncols = 2, rows = replicate 600 [1, 0]\<rparr>"

definition big_Y :: array2 where
  "big_Y = \<lparr>ncols = 2, rows = replicate 600 [0, 1]\<rparr>"

definition big_instance :: test where
  "big_instance = \<lparr>X = big_X, Y = big_Y, A = scenario_A, B = scenario_B,
     names = [''X'', ''Y'', ''A'', ''B''],
     similarity_matrix = replicate 600 [1, -1] @ replicate 600 [0, 0],
     s_AB = replicate 600 (Fin 2) @ replicate 600 (Fin 0)\<rparr>"


definition uneven_instance :: test where
  "uneven_instance = \<lparr>X = scenario_X, Y = single_Y, A = scenario_A, B = scenario_B,
     names = [''X'', ''Y'', ''A'', ''B''],
     similarity_matrix = [[1, -1], [0, 0], [0, 0]],
     s_AB = [Fin 2, Fin 0, Fin 0]\<rparr>"

text \<open>A set of one vector of dimension three.\<close>

definition wide_X :: array2 where
  "wide_X = \<lparr>ncols = 3, rows = [[1, 0, 0]]\<rparr>"

text \<open>
  The instance that \<^verbatim>\<open>run(randomized=True)\<close> evaluates on the scenario when the shuffle
  rotates the six pooled vectors by one place.
\<close>

definition shuffled_scenario :: test where
  "shuffled_scenario = \<lparr>X = \<lparr>ncols = 2, rows = [[0, 1], [-1, 0]]\<rparr>,
     Y = \<lparr>ncols = 2, rows = [[0, -1], [1, 0]]\<rparr>,
     A = \<lparr>ncols = 2, rows = [[-1, 0]]\<rparr>,
     B = \<lparr>ncols = 2, rows = [[1, 0]]\<rparr>,
     names = [''X'', ''Y'', ''A'', ''B''],
     similarity_matrix = [[0, 0], [1, -1], [0, 0], [-1, 1]],
     s_AB = [Fin 0, Fin 2, Fin 0, Fin (-2)]\<rparr>"

text \<open>
  The other half \<^verbatim>\<open>Yi\<close> of the \<open>j\<close>-th draw made from generator state \<open>k\<close>: what is
  left of the shuffled \<^verbatim>\<open>arange(len_xy)\<close> after its first \<open>sz\<close> entries.
\<close>

definition drawn_rest :: "lib \<Rightarrow> nat \<Rightarrow> nat \<Rightarrow> nat \<Rightarrow> nat \<Rightarrow> nat list" where
  "drawn_rest l sz len_xy k j = drop sz (shuffle l (k + j) (arange len_xy))"

text \<open>
  The instance that \<^verbatim>\<open>run(randomized=True)\<close> evaluates on the instance with \<open>|X| = 2\<close> and
  \<open>|Y| = 1\<close> when the shuffle leaves the five pooled vectors in place: the cut gives two
  targets to each of \<open>X\<close> and \<open>Y\<close>, one vector to \<open>A\<close> and none to \<open>B\<close>.
\<close>

definition recut_uneven :: test where
  "recut_uneven = \<lparr>X = \<lparr>ncols = 2, rows = [[1, 0], [0, 1]]\<rparr>,
     Y = \<lparr>ncols = 2, rows = [[0, 1], [1, 0]]\<rparr>,
     A = \<lparr>ncols = 2, rows = [[-1, 0]]\<rparr>,
     B = \<lparr>ncols = 2, rows = []\<rparr>,
     names = [''X'', ''Y'', ''A'', ''B''],
     similarity_matrix = [[-1], [0], [0], [-1]],
     s_AB = [NaN, NaN, NaN, NaN]\<rparr>"

section \<open>Arithmetic on finite values\<close>

lemma foldl_np_add_Fin: "foldl np_add (Fin a) (map Fin rs) = Fin (a + sum_list rs)"
  by (induction rs arbitrary: a) (simp_all add: add.assoc)

lemma np_sum_Fin: "np_sum (map Fin rs) = Fin (sum_list rs)"
  by (simp add: np_sum_def foldl_np_add_Fin)

lemma np_mean_Fin:
  "np_mean (map Fin rs) = (if rs = [] then NaN else Fin (sum_list rs / real (length rs)))"
  by (simp add: np_mean_def np_sum_Fin)


lemma s_wAB_arange:
  "s_wAB t (arange (length (similarity_matrix t))) =
     Inr (map (row_assoc (length (rows (A t)))) (similarity_matrix t))"
proof -
  have "map (\<lambda>i. row_assoc (length (rows (A t))) (similarity_matrix t ! i))
          [0..<length (similarity_matrix t)] =
        map (row_assoc (length (rows (A t)))) (similarity_matrix t)"
    by (rule nth_equalityI) simp_all
  then show ?thesis
    unfolding s_wAB_def arange_def row_assoc_def by simp
qed

lemma reset_calc_Inr:
  assumes "reset_calc t0 = Inr t"
  shows "\<exists>m. similarities t0 = Inr m \<and>
     t = t0\<lparr>similarity_matrix := m, s_AB := map (row_assoc (length (rows (A t0)))) m\<rparr>"
proof -
  from assms obtain m where m: "similarities t0 = Inr m"
    and c: "calc_s_AB (t0\<lparr>similarity_matrix := m\<rparr>) = Inr t"
    by (auto simp: reset_calc_def split: sum.splits)
  have "s_wAB (t0\<lparr>similarity_matrix := m\<rparr>) (arange (length m)) =
      Inr (map (row_assoc (length (rows (A t0)))) m)"
    using s_wAB_arange [of "t0\<lparr>similarity_matrix := m\<rparr>"] by simp
  with c have "t = t0\<lparr>similarity_matrix := m, s_AB := map (row_assoc (length (rows (A t0)))) m\<rparr>"
    by (simp add: calc_s_AB_def)
  with m show ?thesis by blast
qed

lemma similarities_Inr:
  assumes "similarities t = Inr m"
  shows "ncols (X t) = ncols (Y t)" "ncols (A t) = ncols (B t)" "ncols (X t) = ncols (A t)"
    "0 < ncols (X t)" "rows (X t) @ rows (Y t) \<noteq> []" "rows (A t) @ rows (B t) \<noteq> []"
    "m = map (\<lambda>x. map (\<lambda>a. dot (normalize_row x) (normalize_row a)) (rows (A t) @ rows (B t)))
                  (rows (X t) @ rows (Y t))"
  using assms
  by (simp_all add: similarities_def concatenate_def cosine_similarity_def split: if_splits)

section \<open>Combinations\<close>

lemma length_combinations: "length (combinations xs k) = length xs choose k"
  by (induction xs k rule: combinations.induct) simp_all

lemma combinations_length: "ys \<in> set (combinations xs k) \<Longrightarrow> length ys = k"
  by (induction xs k arbitrary: ys rule: combinations.induct) auto

lemma combinations_subset: "ys \<in> set (combinations xs k) \<Longrightarrow> set ys \<subseteq> set xs"
proof (induction xs k arbitrary: ys rule: combinations.induct)
  case (3 x xs k)
  from "3.prems" consider zs where "ys = x # zs" "zs \<in> set (combinations xs k)"
    | "ys \<in> set (combinations xs (Suc k))" by auto
  then show ?case
  proof cases
    case 1
    with "3.IH"(1) [of zs] show ?thesis by auto
  next
    case 2
    with "3.IH"(2) [of ys] show ?thesis by auto
  qed
qed simp_all

lemma combinations_member:
  "ys \<in> set (combinations xs k) \<Longrightarrow> length ys = k \<and> set ys \<subseteq> set xs"
  using combinations_length combinations_subset by blast

lemma combinations_sorted:
  "sorted_wrt (<) xs \<Longrightarrow> ys \<in> set (combinations xs k) \<Longrightarrow> sorted_wrt (<) (ys :: nat list)"
proof (induction xs k arbitrary: ys rule: combinations.induct)
  case (3 x xs k)
  from "3.prems" consider zs where "ys = x # zs" "zs \<in> set (combinations xs k)"
    | "ys \<in> set (combinations xs (Suc k))" by auto
  then show ?case
  proof cases
    case 1
    with "3.prems" "3.IH"(1) have "sorted_wrt (<) zs" by simp
    moreover have "\<forall>z\<in>set zs. x < z"
      using combinations_member [OF 1(2)] "3.prems"(1) by auto
    ultimately show ?thesis using 1 by simp
  next
    case 2
    with "3.prems" "3.IH"(2) show ?thesis by simp
  qed
qed simp_all

lemma combinations_complete:
  "sorted_wrt (<) xs \<Longrightarrow> sorted_wrt (<) ys \<Longrightarrow> set ys \<subseteq> set xs \<Longrightarrow> length ys = k
    \<Longrightarrow> (ys :: nat list) \<in> set (combinations xs k)"
proof (induction xs k arbitrary: ys rule: combinations.induct)
  case (1 xs)
  then show ?case by simp
next
  case (2 k)
  then show ?case by simp
next
  case (3 x xs k)
  from "3.prems"(4) obtain y zs where ys: "ys = y # zs" "length zs = k"
    by (cases ys) auto
  show ?case
  proof (cases "y = x")
    case True
    have "set zs \<subseteq> set xs"
      using "3.prems" ys True by auto
    with "3.IH"(1) [of zs] "3.prems" ys have "zs \<in> set (combinations xs k)" by simp
    with ys True show ?thesis by simp
  next
    case False
    have "x \<notin> set ys"
    proof
      assume "x \<in> set ys"
      with False ys have "x \<in> set zs" by simp
      with "3.prems"(2) ys have "y < x" by simp
      moreover have "y \<in> set xs" using "3.prems"(3) ys False by auto
      ultimately show False using "3.prems"(1) by auto
    qed
    with "3.prems"(3) have "set ys \<subseteq> set xs" by auto
    with "3.IH"(2) [of ys] "3.prems" have "ys \<in> set (combinations xs (Suc k))" by simp
    then show ?thesis by simp
  qed
qed

lemma distinct_combinations: "distinct xs \<Longrightarrow> distinct (combinations xs k)"
proof (induction xs k rule: combinations.induct)
  case (3 x xs k)
  have "distinct (map ((#) x) (combinations xs k))"
    using 3 by (simp add: distinct_map)
  moreover have "distinct (combinations xs (Suc k))" using 3 by simp
  moreover have "set (map ((#) x) (combinations xs k)) \<inter> set (combinations xs (Suc k)) = {}"
    using "3.prems" combinations_member [of _ xs "Suc k"] by fastforce
  ultimately show ?case by simp
qed simp_all

lemma set_combinations_arange:
  "set (combinations (arange m) k) =
     {xi. sorted_wrt (<) xi \<and> set xi \<subseteq> {0..<m} \<and> length xi = k}"
proof -
  have s: "sorted_wrt (<) [0..<m]" by (simp add: sorted_wrt_upt)
  show ?thesis
  proof (intro set_eqI iffI)
    fix xi assume "xi \<in> set (combinations (arange m) k)"
    then have "xi \<in> set (combinations [0..<m] k)" by (simp add: arange_def)
    from combinations_member [OF this] combinations_sorted [OF s this]
    show "xi \<in> {xi. sorted_wrt (<) xi \<and> set xi \<subseteq> {0..<m} \<and> length xi = k}" by simp
  next
    fix xi assume "xi \<in> {xi. sorted_wrt (<) xi \<and> set xi \<subseteq> {0..<m} \<and> length xi = k}"
    then show "xi \<in> set (combinations (arange m) k)"
      using combinations_complete [OF s, of xi k] by (simp add: arange_def)
  qed
qed

section \<open>The loops of the permutation test\<close>

lemma s_XAB_in_range:
  "\<forall>i\<in>set msk. i < length (s_AB t) \<Longrightarrow>
     s_XAB t msk = Inr (np_sum (map (\<lambda>i. s_AB t ! i) msk))"
  by (auto simp: s_XAB_def)

lemma count_step_extreme:
  "s_XAB t xi = Inr si \<Longrightarrow>
   count_step s si (a, b, c) =
     (a + (if extreme t s xi then 1 else 0), b + (if tied t s xi then 1 else 0), c + 1)"
  by (simp add: count_step_def extreme_def tied_def)

lemma exact_loop_count:
  assumes "\<forall>xi\<in>set cs. 2 * length xi = len_xy \<and> xi \<noteq> [] \<and> (\<forall>i\<in>set xi. i < length (s_AB t))"
  shows "exact_loop t s len_xy cs (a, b, c) =
     Inr (a + length (filter (extreme t s) cs), b + length (filter (tied t s) cs), c + length cs)"
  using assms
proof (induction cs arbitrary: a b c)
  case Nil
  then show ?case by simp
next
  case (Cons xi cs)
  from Cons.prems have r: "\<forall>i\<in>set xi. i < length (s_AB t)" and l: "2 * length xi = len_xy"
    and ne: "xi \<noteq> []" by simp_all
  from s_XAB_in_range [OF r] obtain si where si: "s_XAB t xi = Inr si" by blast
  have "exact_loop t s len_xy (xi # cs) (a, b, c) =
      exact_loop t s len_xy cs (count_step s si (a, b, c))"
    using l ne si by simp
  also have "\<dots> = exact_loop t s len_xy cs
      (a + (if extreme t s xi then 1 else 0), b + (if tied t s xi then 1 else 0), c + 1)"
    by (simp only: count_step_extreme [OF si])
  also have "\<dots> = Inr (a + (if extreme t s xi then 1 else 0) + length (filter (extreme t s) cs),
      b + (if tied t s xi then 1 else 0) + length (filter (tied t s) cs), c + 1 + length cs)"
    using Cons.prems by (intro Cons.IH) simp
  finally show ?case by simp
qed

lemma shuffle_arange:
  assumes "valid_rng l"
  shows "shuffle l k (arange m) = shuffle_draw l k m"
proof -
  have "set (shuffle_draw l k m) = {0..<m}" using assms by (simp add: valid_rng_def)
  then have "\<forall>i\<in>set (shuffle_draw l k m). [0..<m] ! i = i" by auto
  then have "map (\<lambda>i. [0..<m] ! i) (shuffle_draw l k m) = shuffle_draw l k m"
    by (simp add: map_idI)
  then show ?thesis by (simp add: shuffle_def arange_def)
qed

lemma length_shuffle_draw: "valid_rng l \<Longrightarrow> length (shuffle_draw l k m) = m"
proof -
  assume "valid_rng l"
  then have "distinct (shuffle_draw l k m)" "set (shuffle_draw l k m) = {0..<m}"
    by (simp_all add: valid_rng_def)
  then show ?thesis using distinct_card [of "shuffle_draw l k m"] by simp
qed

lemma set_take_shuffle_draw: "valid_rng l \<Longrightarrow> i \<in> set (take n (shuffle_draw l k m)) \<Longrightarrow> i < m"
  using set_take_subset [of n "shuffle_draw l k m"] by (auto simp: valid_rng_def)

lemma set_drop_shuffle_draw: "valid_rng l \<Longrightarrow> i \<in> set (drop n (shuffle_draw l k m)) \<Longrightarrow> i < m"
  using set_drop_subset [of n "shuffle_draw l k m"] by (auto simp: valid_rng_def)

lemma sample_loop_count:
  assumes "valid_rng l" "len_xy = 2 * sz" "length (s_AB t) = len_xy"
  shows "sample_loop l t s sz len_xy m (a, b, c) k =
     (Inr (a + length (filter (\<lambda>j. extreme t s (drawn l sz len_xy k j)) [0..<m]),
           b + length (filter (\<lambda>j. tied t s (drawn l sz len_xy k j)) [0..<m]), c + m), k + m)"
proof (induction m arbitrary: a b c k)
  case 0
  then show ?case by simp
next
  case (Suc m)
  let ?xi = "take sz (shuffle l k (arange len_xy))"
  have xi: "?xi = take sz (shuffle_draw l k len_xy)" by (simp add: shuffle_arange assms(1))
  have len: "2 * length ?xi = len_xy"
    unfolding xi using assms by (simp add: length_shuffle_draw)
  have "\<forall>i\<in>set ?xi. i < length (s_AB t)"
    using set_take_shuffle_draw [OF assms(1)] by (simp add: xi assms(3))
  from s_XAB_in_range [OF this] obtain si where si: "s_XAB t ?xi = Inr si" by blast
  have d0: "drawn l sz len_xy k 0 = ?xi" by (simp add: drawn_def)
  have dS: "\<And>j. drawn l sz len_xy (Suc k) j = drawn l sz len_xy k (Suc j)"
    by (simp add: drawn_def)
  have f: "\<And>P. length (filter P [0..<Suc m]) =
      (if P 0 then 1 else 0) + length (filter (\<lambda>j. P (Suc j)) [0..<m])"
  proof -
    fix P :: "nat \<Rightarrow> bool"
    have "[0..<Suc m] = 0 # map Suc [0..<m]"
      by (simp add: upt_conv_Cons map_Suc_upt del: upt_Suc)
    then show "length (filter P [0..<Suc m]) =
      (if P 0 then 1 else 0) + length (filter (\<lambda>j. P (Suc j)) [0..<m])"
      by (simp add: filter_map comp_def del: upt_Suc)
  qed
  have "sample_loop l t s sz len_xy (Suc m) (a, b, c) k =
      sample_loop l t s sz len_xy m (count_step s si (a, b, c)) (Suc k)"
    using len si by (simp add: Let_def)
  also have "\<dots> = sample_loop l t s sz len_xy m
      (a + (if extreme t s ?xi then 1 else 0), b + (if tied t s ?xi then 1 else 0), c + 1) (Suc k)"
    by (simp only: count_step_extreme [OF si])
  also have "\<dots> = (Inr (a + (if extreme t s ?xi then 1 else 0)
          + length (filter (\<lambda>j. extreme t s (drawn l sz len_xy (Suc k) j)) [0..<m]),
        b + (if tied t s ?xi then 1 else 0)
          + length (filter (\<lambda>j. tied t s (drawn l sz len_xy (Suc k) j)) [0..<m]),
        c + 1 + m), Suc k + m)"
    by (rule Suc.IH)
  finally show ?case
    by (simp only: f [of "\<lambda>j. extreme t s (drawn l sz len_xy k j)"]
        f [of "\<lambda>j. tied t s (drawn l sz len_xy k j)"] d0 dS) simp
qed

section \<open>Constructed instances and the non-parametric p-value\<close>

lemma init_Inr:
  assumes "init x y a b nm = Inr t"
  shows "X t = x" "Y t = y" "A t = a" "B t = b"
    "ncols x = ncols y" "rows x @ rows y \<noteq> []" "rows a @ rows b \<noteq> []"
    "similarity_matrix t = map (\<lambda>u. map (\<lambda>v. dot (normalize_row u) (normalize_row v))
        (rows a @ rows b)) (rows x @ rows y)"
    "s_AB t = map (row_assoc (length (rows a))) (similarity_matrix t)"
    "length (s_AB t) = length (rows x) + length (rows y)"
proof -
  let ?t0 = "\<lparr>X = x, Y = y, A = a, B = b,
       names = (case nm of None \<Rightarrow> [''X'', ''Y'', ''A'', ''B''] | Some ns \<Rightarrow> ns),
       similarity_matrix = [], s_AB = []\<rparr>"
  from assms have "reset_calc ?t0 = Inr t" by (simp add: init_def)
  from reset_calc_Inr [OF this] obtain m where m: "similarities ?t0 = Inr m"
    and t: "t = ?t0\<lparr>similarity_matrix := m, s_AB := map (row_assoc (length (rows (A ?t0)))) m\<rparr>"
    by blast
  from t show "X t = x" "Y t = y" "A t = a" "B t = b" by simp_all
  from similarities_Inr(1) [OF m] show "ncols x = ncols y" by simp
  from similarities_Inr(5) [OF m] show "rows x @ rows y \<noteq> []" by simp
  from similarities_Inr(6) [OF m] show "rows a @ rows b \<noteq> []" by simp
  from similarities_Inr(7) [OF m] t show sm: "similarity_matrix t = map (\<lambda>u. map (\<lambda>v. dot (normalize_row u) (normalize_row v))
        (rows a @ rows b)) (rows x @ rows y)" by simp
  from t show sab: "s_AB t = map (row_assoc (length (rows a))) (similarity_matrix t)" by simp
  show "length (s_AB t) = length (rows x) + length (rows y)"
    by (simp add: sab sm)
qed

lemma length_arange: "length (arange m) = m"
  by (simp add: arange_def)

lemma branch_decision_exact:
  "binom l (2 * n) n = Fin (real ((2 * n) choose n)) \<Longrightarrow>
     branch_decision l n n_samples = Inr (int ((2 * n) choose n) > n_samples)"
  by (simp add: branch_decision_def)

lemma p_nonparametric:
  assumes t: "init x y a b nm = Inr t"
    and n: "length (rows x) = n" "length (rows y) = n"
    and s: "s_XAB t (arange n) = Inr s"
    and d: "branch_decision l n n_samples = Inr sampling"
  shows "p l t n_samples False k =
     (case (if sampling
            then sample_loop l t s n (2 * n) (nat (n_samples - 1)) (1, 0, 1) k
            else (exact_loop t s (2 * n) (combinations (arange (2 * n)) n) (0, 0, 0), k))
      of (Inl e, k') \<Rightarrow> (Inl e, k')
       | (Inr (total_true, total_equal, total_all), k') \<Rightarrow> (py_truediv total_true total_all, k'))"
proof -
  note f = init_Inr [OF t]
  have c: "concatenate x y = Inr \<lparr>ncols = ncols x, rows = rows x @ rows y\<rparr>"
    by (simp add: concatenate_def f)
  show ?thesis
    unfolding p_def using n s d by (simp add: c f Let_def mult_2)
qed

lemma observed_exists:
  assumes t: "init x y a b nm = Inr t" and n: "length (rows x) = n"
  shows "\<exists>s. s_XAB t (arange n) = Inr s"
  using s_XAB_in_range [of "arange n" t] init_Inr(10) [OF t] n by (simp add: arange_def)

lemma p_exact:
  assumes t: "init x y a b nm = Inr t"
    and n: "length (rows x) = n" "length (rows y) = n"
    and s: "s_XAB t (arange n) = Inr s"
    and d: "branch_decision l n n_samples = Inr False"
  shows "p l t n_samples False k =
     (Inr (Fin (real (length (filter (extreme t s) (combinations (arange (2 * n)) n)))
                 / real ((2 * n) choose n))), k)"
proof -
  note f = init_Inr [OF t]
  from f(6) n have n0: "0 < n" by auto
  have r: "\<forall>xi\<in>set (combinations (arange (2 * n)) n).
      2 * length xi = 2 * n \<and> xi \<noteq> [] \<and> (\<forall>i\<in>set xi. i < length (s_AB t))"
    using n0 n f(10) by (auto simp: set_combinations_arange)
  have pos: "0 < (2 * n) choose n" by (simp add: zero_less_binomial)
  show ?thesis
    unfolding p_nonparametric [OF t n s d]
    using pos
    by (simp add: exact_loop_count [OF r] py_truediv_def length_combinations length_arange)
qed

lemma p_sampling:
  assumes t: "init x y a b nm = Inr t"
    and n: "length (rows x) = n" "length (rows y) = n"
    and s: "s_XAB t (arange n) = Inr s"
    and d: "branch_decision l n n_samples = Inr True"
    and v: "valid_rng l"
  shows "p l t n_samples False k =
     (Inr (Fin (real (1 + length (filter (\<lambda>j. extreme t s (drawn l n (2 * n) k j))
                                   [0..<nat (n_samples - 1)]))
                 / real (1 + nat (n_samples - 1)))), k + nat (n_samples - 1))"
proof -
  note f = init_Inr [OF t]
  have len: "length (s_AB t) = 2 * n" using f(10) n by simp
  show ?thesis
    unfolding p_nonparametric [OF t n s d]
    by (simp add: sample_loop_count [OF v refl len] py_truediv_def)
qed

section \<open>The scenario and the exact branch\<close>

lemma normalize_unit: "sqrt (dot v v) = 1 \<Longrightarrow> normalize_row v = v"
  by (simp add: normalize_row_def map_idI)

lemma init_scenario: "init scenario_X scenario_Y scenario_A scenario_B None = Inr scenario"
proof -
  have n: "normalize_row [1, 0] = [1, 0]" "normalize_row [0, 1] = [0, 1]"
     "normalize_row [-1, 0] = [-1, 0]" "normalize_row [0, -1] = [0, -1]"
    by (simp_all add: normalize_unit dot_def)
  show ?thesis
    by (simp add: init_def reset_calc_def similarities_def concatenate_def cosine_similarity_def
      scenario_X_def scenario_Y_def scenario_A_def scenario_B_def n dot_def
      calc_s_AB_def s_wAB_def arange_def upt_rec [of 0] upt_rec [of 1] upt_rec [of 2] upt_rec [of 3]
      np_mean_def np_sum_def np_sub_def scenario_def)
qed

lemma valid_rng_rotate: "valid_rng lib_rotate"
  by (simp add: valid_rng_def lib_rotate_def)

lemma binom_f64_small: "n choose k < 2 ^ 1024 \<Longrightarrow> binom_f64 n k = Fin (real (n choose k))"
  by (simp add: binom_f64_def)

lemma choose_4_2: "(4::nat) choose 2 = 6"
  by (simp add: eval_nat_numeral)

lemma binom_rotate_4_2: "binom lib_rotate (2 * 2) 2 = Fin (real ((2 * 2) choose 2))"
  by (simp add: lib_rotate_def binom_f64_def choose_4_2)

lemma combinations_4_2:
  "combinations (arange 4) 2 = [[0, 1], [0, 2], [0, 3], [1, 2], [1, 3], [2, 3]]"
  by (simp add: arange_def eval_nat_numeral upt_rec)

lemma scenario_observed: "s_XAB scenario (arange 2) = Inr (Fin 2)"
  by (simp add: s_XAB_def scenario_def arange_def eval_nat_numeral upt_rec np_sum_def)

lemma scenario_extreme:
  "filter (extreme scenario (Fin 2)) [[0, 1], [0, 2], [0, 3], [1, 2], [1, 3], [2, 3]]
     = [[0, 1], [0, 3]]"
  by (simp add: extreme_def s_XAB_def scenario_def np_sum_def np_eq_def)

text \<open>
  Claim C1, as amended. Let \<open>t\<close> be an instance built by the constructor with
  \<open>|X| = |Y| = n\<close>, and let the number that the code compares with \<open>n_samples\<close>,
  \<^verbatim>\<open>int(scipy.special.binom(2n, n))\<close>, be computed without an error and be at most
  \<open>n_samples\<close>. Then \<^verbatim>\<open>p\<close> with \<^verbatim>\<open>parametric=False\<close> returns the number of index sets
  \<open>xi\<close> among \<^verbatim>\<open>combinations(arange(2n), n)\<close> whose statistic \<open>si\<close> satisfies \<open>si > s\<close> or
  \<open>si == s\<close>, divided by \<open>C(2n, n)\<close>, where \<open>s\<close> is the statistic of the indices of \<open>X\<close>;
  no random number is drawn. The enumeration lists every subset of size \<open>n\<close> of the
  \<open>2n\<close> pooled indices exactly once (as its increasing list), and the statistic of each
  is computed without an error.
\<close>

theorem exact_branch_p_value:
  assumes "init x y a b nm = Inr t" "length (rows x) = n" "length (rows y) = n"
    and "branch_decision l n n_samples = Inr False"
  shows "(\<exists>s. s_XAB t (arange n) = Inr s \<and>
           p l t n_samples False k =
             (Inr (Fin (real (length (filter (extreme t s) (combinations (arange (2 * n)) n)))
                        / real ((2 * n) choose n))), k)) \<and>
         distinct (combinations (arange (2 * n)) n) \<and>
         set (combinations (arange (2 * n)) n) =
           {xi. sorted_wrt (<) xi \<and> set xi \<subseteq> {0..<2 * n} \<and> length xi = n} \<and>
         (\<forall>xi\<in>set (combinations (arange (2 * n)) n). \<exists>si. s_XAB t xi = Inr si)"
proof (intro conjI)
  from observed_exists [OF assms(1,2)] obtain s where s: "s_XAB t (arange n) = Inr s" by blast
  from p_exact [OF assms(1-3) s assms(4), of k] s
  show "\<exists>s. s_XAB t (arange n) = Inr s \<and>
           p l t n_samples False k =
             (Inr (Fin (real (length (filter (extreme t s) (combinations (arange (2 * n)) n)))
                        / real ((2 * n) choose n))), k)" by blast
  show "distinct (combinations (arange (2 * n)) n)"
    by (simp add: distinct_combinations arange_def)
  show "set (combinations (arange (2 * n)) n) =
           {xi. sorted_wrt (<) xi \<and> set xi \<subseteq> {0..<2 * n} \<and> length xi = n}"
    by (rule set_combinations_arange)
  show "\<forall>xi\<in>set (combinations (arange (2 * n)) n). \<exists>si. s_XAB t xi = Inr si"
  proof
    fix xi assume "xi \<in> set (combinations (arange (2 * n)) n)"
    then have "\<forall>i\<in>set xi. i < length (s_AB t)"
      using init_Inr(10) [OF assms(1)] assms(2,3) by (auto simp: set_combinations_arange)
    from s_XAB_in_range [OF this] show "\<exists>si. s_XAB t xi = Inr si" by blast
  qed
qed

lemma branch_low_2: "branch_decision lib_low 2 6 = Inr False"
proof -
  have "binom lib_low (2 * 2) 2 = Fin (599999 / 100000)"
    by (simp add: lib_low_def choose_4_2)
  moreover have "\<lfloor>599999 / 100000 :: real\<rfloor> = 5" by simp
  ultimately show ?thesis by (simp add: branch_decision_def)
qed

theorem exact_branch_p_value_witness:
  "init scenario_X scenario_Y scenario_A scenario_B None = Inr scenario \<and>
   length (rows scenario_X) = 2 \<and> length (rows scenario_Y) = 2 \<and>
   binom lib_low 4 2 = Fin (6 - 1 / 100000) \<and>
   branch_decision lib_low 2 6 = Inr False \<and>
   p lib_low scenario 6 False 0 = (Inr (Fin (1 / 3)), 0)"
proof -
  have h: "length (rows scenario_X) = 2" "length (rows scenario_Y) = 2"
    by (simp_all add: scenario_X_def scenario_Y_def)
  have b: "binom lib_low 4 2 = Fin (6 - 1 / 100000)"
    by (simp add: lib_low_def choose_4_2)
  from exact_branch_p_value [OF init_scenario h branch_low_2, of 0]
  obtain s where s: "s_XAB scenario (arange 2) = Inr s"
    and pv: "p lib_low scenario 6 False 0 =
      (Inr (Fin (real (length (filter (extreme scenario s) (combinations (arange (2 * 2)) 2)))
                        / real ((2 * 2) choose 2))), 0)"
    by blast
  from s have s2: "s = Fin 2" by (simp add: scenario_observed)
  have four: "2 * 2 = (4::nat)" by simp
  have "p lib_low scenario 6 False 0 = (Inr (Fin (1 / 3)), 0)"
    unfolding pv s2 four combinations_4_2 scenario_extreme choose_4_2 by simp
  with init_scenario h b branch_low_2 show ?thesis by (intro conjI) assumption+
qed

section \<open>The sampling branch\<close>



lemma scenario_rows: "length (rows scenario_X) = 2" "length (rows scenario_Y) = 2"
  by (simp_all add: scenario_X_def scenario_Y_def)

lemma branch_rotate_2: "n_samples < 6 \<Longrightarrow> branch_decision lib_rotate 2 n_samples = Inr True"
  using branch_decision_exact [of lib_rotate 2 n_samples] binom_rotate_4_2
  by (simp add: choose_4_2)

lemma p_scenario_sampling:
  "n_samples < 6 \<Longrightarrow> p lib_rotate scenario n_samples False k =
     (Inr (Fin (real (1 + length (filter (\<lambda>j. extreme scenario (Fin 2) (drawn lib_rotate 2 (2 * 2) k j))
                                   [0..<nat (n_samples - 1)]))
                 / real (1 + nat (n_samples - 1)))), k + nat (n_samples - 1))"
  by (rule p_sampling [OF init_scenario scenario_rows scenario_observed branch_rotate_2 valid_rng_rotate])



section \<open>Positivity of the non-parametric p-value\<close>

lemma row_assoc_Fin:
  "0 < na \<Longrightarrow> na < length r \<Longrightarrow> row_assoc na r = Fin (assoc_real na r)"
proof -
  assume a: "0 < na" "na < length r"
  then have "take na r \<noteq> []" "drop na r \<noteq> []" by auto
  then show ?thesis
    using a by (simp add: row_assoc_def np_mean_Fin np_sub_def assoc_real_def min_def)
qed

lemma s_XAB_Fin:
  assumes "s_AB t = map Fin rs" "\<forall>i\<in>set msk. i < length rs"
  shows "s_XAB t msk = Inr (Fin (sum_list (map (\<lambda>i. rs ! i) msk)))"
proof -
  have r: "\<forall>i\<in>set msk. i < length (s_AB t)" using assms by simp
  have "map (\<lambda>i. s_AB t ! i) msk = map Fin (map (\<lambda>i. rs ! i) msk)"
    using assms by simp
  then show ?thesis using s_XAB_in_range [OF r] by (simp only: np_sum_Fin)
qed

lemma s_AB_finite:
  assumes t: "init x y a b nm = Inr t" and a: "rows a \<noteq> []" and b: "rows b \<noteq> []"
  shows "s_AB t = map Fin (map (assoc_real (length (rows a))) (similarity_matrix t))"
proof -
  note f = init_Inr [OF t]
  have "\<forall>r\<in>set (similarity_matrix t). row_assoc (length (rows a)) r = Fin (assoc_real (length (rows a)) r)"
  proof
    fix r assume "r \<in> set (similarity_matrix t)"
    then have "length r = length (rows a) + length (rows b)"
      by (auto simp: f(8))
    with a b show "row_assoc (length (rows a)) r = Fin (assoc_real (length (rows a)) r)"
      by (intro row_assoc_Fin) simp_all
  qed
  then show ?thesis by (simp add: f(9))
qed

lemma extreme_self:
  assumes "s_XAB t xi = Inr (Fin v)"
  shows "extreme t (Fin v) xi"
  using assms by (simp add: extreme_def np_eq_def)

lemma observed_finite:
  assumes t: "init x y a b nm = Inr t" and a: "rows a \<noteq> []" and b: "rows b \<noteq> []"
    and n: "length (rows x) = n"
  shows "\<exists>v. s_XAB t (arange n) = Inr (Fin v)"
proof -
  let ?rs = "map (assoc_real (length (rows a))) (similarity_matrix t)"
  have s: "s_AB t = map Fin ?rs" by (rule s_AB_finite [OF t a b])
  have l: "length (s_AB t) = length (rows x) + length (rows y)" by (rule init_Inr(10) [OF t])
  have r: "\<forall>i\<in>set (arange n). i < length ?rs" using l n unfolding s by (simp add: arange_def)
  from s_XAB_Fin [OF s r] show ?thesis by blast
qed

lemma arange_in_combinations: "arange n \<in> set (combinations (arange (2 * n)) n)"
  by (simp add: set_combinations_arange) (simp add: arange_def sorted_wrt_upt)

text \<open>
  Claim C10, as amended. Let \<open>t\<close> be an instance built by the constructor with
  \<open>|X| = |Y| = n\<close> and with neither \<open>A\<close> nor \<open>B\<close> empty, let \<open>n_samples \<ge> 1\<close>, and let the
  conversion of \<^verbatim>\<open>scipy.special.binom\<close>'s result to an integer succeed. Then \<^verbatim>\<open>p\<close> with
  \<^verbatim>\<open>parametric=False\<close> returns a finite value that is strictly positive and at least
  \<open>1 / max(C(2n, n), n_samples)\<close>.
\<close>

theorem p_value_positive:
  assumes "init x y a b nm = Inr t" "length (rows x) = n" "length (rows y) = n"
    and "rows a \<noteq> []" "rows b \<noteq> []"
    and "1 \<le> n_samples"
    and "valid_rng l"
    and "branch_decision l n n_samples = Inr sampling"
  shows "\<exists>v k'. p l t n_samples False k = (Inr (Fin v), k') \<and> 0 < v \<and>
           1 / real_of_int (max (int ((2 * n) choose n)) n_samples) \<le> v"
proof -
  from observed_finite [OF assms(1,4,5,2)] obtain s where s: "s_XAB t (arange n) = Inr (Fin s)"
    by blast
  have cpos: "0 < (2 * n) choose n" by (simp add: zero_less_binomial)
  show ?thesis
  proof (cases sampling)
    case True
    let ?c = "length (filter (\<lambda>j. extreme t (Fin s) (drawn l n (2 * n) k j))
                                   [0..<nat (n_samples - 1)])"
    let ?v = "real (1 + ?c) / real (1 + nat (n_samples - 1))"
    have pv: "p l t n_samples False k = (Inr (Fin ?v), k + nat (n_samples - 1))"
      using p_sampling [OF assms(1-3) s _ assms(7)] assms(8) True by simp
    have r: "real (1 + nat (n_samples - 1)) = real_of_int n_samples"
      using assms(6) by (simp add: of_nat_diff)
    have "1 / real_of_int n_samples \<le> ?v"
      unfolding r using assms(6) by (simp add: divide_right_mono)
    moreover have "1 / real_of_int (max (int ((2 * n) choose n)) n_samples) \<le> 1 / real_of_int n_samples"
      using assms(6) by (simp add: frac_le)
    moreover have "0 < ?v" by (simp add: pos_divide_less_eq add_pos_nonneg)
    ultimately have "p l t n_samples False k = (Inr (Fin ?v), k + nat (n_samples - 1)) \<and> 0 < ?v \<and>
           1 / real_of_int (max (int ((2 * n) choose n)) n_samples) \<le> ?v"
      using pv by linarith
    then show ?thesis by blast
  next
    case False
    let ?c = "length (filter (extreme t (Fin s)) (combinations (arange (2 * n)) n))"
    let ?v = "real ?c / real ((2 * n) choose n)"
    have pv: "p l t n_samples False k = (Inr (Fin ?v), k)"
      using p_exact [OF assms(1-3) s] assms(8) False by simp
    have "arange n \<in> set (filter (extreme t (Fin s)) (combinations (arange (2 * n)) n))"
      using arange_in_combinations extreme_self [OF s] by simp
    then have "0 < ?c" by (rule length_pos_if_in_set)
    then have c1: "1 \<le> real ?c" by linarith
    have "1 / real ((2 * n) choose n) \<le> ?v"
      using c1 cpos by (simp add: divide_right_mono)
    moreover have "1 / real_of_int (max (int ((2 * n) choose n)) n_samples)
        \<le> 1 / real ((2 * n) choose n)"
      using cpos by (simp add: frac_le)
    moreover have "0 < ?v" using \<open>0 < ?c\<close> cpos by simp
    ultimately have "p l t n_samples False k = (Inr (Fin ?v), k) \<and> 0 < ?v \<and>
           1 / real_of_int (max (int ((2 * n) choose n)) n_samples) \<le> ?v"
      using pv by linarith
    then show ?thesis by blast
  qed
qed

lemma init_no_A: "init single_X single_Y empty_A single_B None = Inr no_A_instance"
proof -
  have n: "normalize_row [1, 0] = [1, 0]" "normalize_row [0, 1] = [0, 1]"
    by (simp_all add: normalize_unit dot_def)
  show ?thesis
    by (simp add: init_def reset_calc_def similarities_def concatenate_def cosine_similarity_def
      single_X_def single_Y_def empty_A_def single_B_def n dot_def
      calc_s_AB_def s_wAB_def arange_def upt_rec [of 0] upt_rec [of 1]
      np_mean_def np_sum_def np_sub_def no_A_instance_def)
qed

lemma choose_2_1: "(2::nat) choose 1 = 2"
  by (simp add: eval_nat_numeral)

lemma p_no_A: "p lib_rotate no_A_instance 10000 False 0 = (Inr (Fin 0), 0)"
proof -
  have r: "length (rows single_X) = 1" "length (rows single_Y) = 1"
    by (simp_all add: single_X_def single_Y_def)
  have s: "s_XAB no_A_instance (arange 1) = Inr NaN"
    by (simp add: s_XAB_def no_A_instance_def arange_def np_sum_def)
  have "binom lib_rotate (2 * 1) 1 = Fin (real ((2 * 1) choose 1))"
    by (simp add: lib_rotate_def binom_f64_def choose_2_1)
  from branch_decision_exact [OF this, of 10000]
  have d: "branch_decision lib_rotate 1 10000 = Inr False" by (simp add: choose_2_1)
  have c: "combinations (arange (2 * 1)) 1 = [[0], [1]]"
    by (simp add: arange_def eval_nat_numeral upt_rec)
  have e: "filter (extreme no_A_instance NaN) [[0], [1]] = []"
    by (simp add: extreme_def s_XAB_def no_A_instance_def np_sum_def np_eq_def)
  show ?thesis
    unfolding p_exact [OF init_no_A r s d] c e by simp
qed

text \<open>
  Claim C10 as stated fails on an instance whose set \<open>A\<close> is empty: the observed statistic
  is \<^verbatim>\<open>nan\<close>, no comparison with it holds, and the exact branch returns \<open>0 / 2\<close>.
\<close>

theorem p_value_positive_counterexample:
  "init single_X single_Y empty_A single_B None = Inr no_A_instance \<and>
   length (rows single_X) = length (rows single_Y) \<and>
   p lib_rotate no_A_instance 10000 False 0 = (Inr (Fin 0), 0)"
  using init_no_A p_no_A by (simp add: single_X_def single_Y_def)

theorem p_value_positive_witness:
  "init scenario_X scenario_Y scenario_A scenario_B None = Inr scenario \<and>
   length (rows scenario_X) = 2 \<and> length (rows scenario_Y) = 2 \<and>
   rows scenario_A \<noteq> [] \<and> rows scenario_B \<noteq> [] \<and> (1::int) \<le> 3 \<and> valid_rng lib_rotate \<and>
   branch_decision lib_rotate 2 3 = Inr True \<and>
   (\<exists>v k'. p lib_rotate scenario 3 False 0 = (Inr (Fin v), k') \<and> 0 < v \<and>
           1 / real_of_int (max (int ((2 * 2) choose 2)) 3) \<le> v)"
proof -
  have h: "rows scenario_A \<noteq> []" "rows scenario_B \<noteq> []" "(1::int) \<le> 3"
    "branch_decision lib_rotate 2 3 = Inr True"
    by (simp_all add: scenario_A_def scenario_B_def branch_rotate_2)
  have c: "\<exists>v k'. p lib_rotate scenario 3 False 0 = (Inr (Fin v), k') \<and> 0 < v \<and>
           1 / real_of_int (max (int ((2 * 2) choose 2)) 3) \<le> v"
    by (rule p_value_positive [OF init_scenario scenario_rows h(1-3) valid_rng_rotate h(4)])
  show ?thesis
    using init_scenario scenario_rows h valid_rng_rotate c by (intro conjI) assumption+
qed

section \<open>The scenario of the specification\<close>

lemma scenario_std: "np_std [Fin 2, Fin 0, Fin (-2), Fin 0] = Fin (sqrt (8 / 3))"
  by (simp add: np_std_def np_mean_def np_sum_def np_sub_def)

lemma scenario_effect_size:
  "effect_size scenario = Inr (np_div (Fin (1 - (-1))) (np_std [Fin 2, Fin 0, Fin (-2), Fin 0]))"
  by (simp add: effect_size_def s_wAB_def scenario_def scenario_X_def scenario_A_def
      arange_def arange2_def upt_rec [of 0] upt_rec [of 1] upt_rec [of 2] upt_rec [of 3]
      np_mean_def np_sum_def np_sub_def)

lemma scenario_statistics:
  "map (s_XAB scenario) [[0, 1], [0, 2], [0, 3], [1, 2], [1, 3], [2, 3]] =
     [Inr (Fin 2), Inr (Fin 0), Inr (Fin 2), Inr (Fin (-2)), Inr (Fin 0), Inr (Fin (-2))]"
  by (simp add: s_XAB_def scenario_def np_sum_def)

text \<open>
  Claim C3. For the scenario \<^verbatim>\<open>X = [[1,0],[0,1]]\<close>, \<^verbatim>\<open>Y = [[-1,0],[0,-1]]\<close>,
  \<^verbatim>\<open>A = [[1,0]]\<close>, \<^verbatim>\<open>B = [[-1,0]]\<close> and any \<open>n_samples \<ge> 6\<close> (with
  \<^verbatim>\<open>scipy.special.binom(4, 2)\<close> returning \<open>6\<close>): the constructor succeeds, the association
  vector is \<open>[2, 0, -2, 0]\<close>, \<open>C(4, 2) = 6\<close> and the exact branch is taken, the observed
  statistic \<open>2\<close> is the largest among the six partitions, the p-value is the number of
  partitions whose statistic is at least the observed one divided by 6, which is \<open>2 / 6\<close>,
  and the effect size is \<open>(1 - (-1)) / stdev([2, 0, -2, 0], ddof=1)\<close>, that standard
  deviation being \<open>sqrt (8 / 3)\<close>.
\<close>

theorem scenario_results:
  assumes "6 \<le> n_samples" and "binom l 4 2 = Fin 6"
  shows "init scenario_X scenario_Y scenario_A scenario_B None = Inr scenario \<and>
         s_AB scenario = [Fin 2, Fin 0, Fin (-2), Fin 0] \<and>
         (4::nat) choose 2 = 6 \<and>
         branch_decision l 2 n_samples = Inr False \<and>
         s_XAB scenario (arange 2) = Inr (Fin 2) \<and>
         (\<forall>xi\<in>set (combinations (arange 4) 2). \<exists>v. s_XAB scenario xi = Inr (Fin v) \<and> v \<le> 2) \<and>
         p l scenario n_samples False k =
           (Inr (Fin (real (length (filter (extreme scenario (Fin 2)) (combinations (arange 4) 2)))
                      / 6)), k) \<and>
         p l scenario n_samples False k = (Inr (Fin (2 / 6)), k) \<and>
         effect_size scenario =
           Inr (np_div (Fin (1 - (-1))) (np_std [Fin 2, Fin 0, Fin (-2), Fin 0])) \<and>
         np_std [Fin 2, Fin 0, Fin (-2), Fin 0] = Fin (sqrt (8 / 3))"
proof -
  have b: "binom l (2 * 2) 2 = Fin (real ((2 * 2) choose 2))"
    using assms(2) by (simp add: choose_4_2)
  have d: "branch_decision l 2 n_samples = Inr False"
    using branch_decision_exact [OF b, of n_samples] assms(1) by (simp add: choose_4_2)
  have four: "2 * 2 = (4::nat)" by simp
  have pv: "p l scenario n_samples False k =
           (Inr (Fin (real (length (filter (extreme scenario (Fin 2)) (combinations (arange 4) 2)))
                      / 6)), k)"
    using p_exact [OF init_scenario scenario_rows scenario_observed d, of k]
    unfolding four choose_4_2 by simp
  have pv2: "p l scenario n_samples False k = (Inr (Fin (2 / 6)), k)"
    unfolding pv combinations_4_2 scenario_extreme by simp
  have m: "\<forall>xi\<in>set (combinations (arange 4) 2). \<exists>v. s_XAB scenario xi = Inr (Fin v) \<and> v \<le> 2"
    unfolding combinations_4_2 using scenario_statistics by simp
  have s: "s_AB scenario = [Fin 2, Fin 0, Fin (-2), Fin 0]" by (simp add: scenario_def)
  show ?thesis
    using init_scenario s choose_4_2 d scenario_observed m pv pv2 scenario_effect_size scenario_std
    by (intro conjI) assumption+
qed

theorem scenario_results_witness:
  "(6::int) \<le> 10000 \<and> binom lib_rotate 4 2 = Fin 6 \<and>
   p lib_rotate scenario 10000 False 0 = (Inr (Fin (2 / 6)), 0) \<and>
   effect_size scenario = Inr (Fin (2 / sqrt (8 / 3)))"
proof -
  have h: "(6::int) \<le> 10000" "binom lib_rotate 4 2 = Fin 6"
    by (simp_all add: lib_rotate_def binom_f64_def choose_4_2)
  from scenario_results [OF h, of 0]
  have "p lib_rotate scenario 10000 False 0 = (Inr (Fin (2 / 6)), 0)"
    and "effect_size scenario =
           Inr (np_div (Fin (1 - (-1))) (np_std [Fin 2, Fin 0, Fin (-2), Fin 0]))"
    and "np_std [Fin 2, Fin 0, Fin (-2), Fin 0] = Fin (sqrt (8 / 3))"
    by blast+
  then show ?thesis using h by simp
qed

section \<open>The branch decision\<close>

lemma init_big: "init big_X big_Y scenario_A scenario_B None = Inr big_instance"
proof -
  have n: "normalize_row [1, 0] = [1, 0]" "normalize_row [0, 1] = [0, 1]"
     "normalize_row [-1, 0] = [-1, 0]"
    by (simp_all add: normalize_unit dot_def)
  let ?t0 = "\<lparr>X = big_X, Y = big_Y, A = scenario_A, B = scenario_B,
       names = [''X'', ''Y'', ''A'', ''B''], similarity_matrix = [], s_AB = []\<rparr>"
  have m: "similarities ?t0 = Inr (replicate 600 [1, -1] @ replicate 600 [0, 0])"
    by (simp add: similarities_def concatenate_def cosine_similarity_def big_X_def big_Y_def
        scenario_A_def scenario_B_def n dot_def)
  have "reset_calc ?t0 = Inr big_instance"
    unfolding reset_calc_def m
    using s_wAB_arange [of "?t0\<lparr>similarity_matrix := replicate 600 [1, -1] @ replicate 600 [0, 0]\<rparr>"]
    by (simp add: calc_s_AB_def big_instance_def row_assoc_def scenario_A_def
        np_mean_def np_sum_def np_sub_def)
  then show ?thesis by (simp add: init_def)
qed

lemma central_binomial_600: "2 ^ 1024 \<le> (1200::nat) choose 600"
proof -
  have "(4::real) ^ 600 / (2 * real 600) \<le> real ((2 * 600) choose 600)"
    by (rule central_binomial_lower_bound) simp
  moreover have "(4::real) ^ 600 = 2 ^ 1024 * 2 ^ 176"
  proof -
    have "(4::real) ^ 600 = (2 ^ 2) ^ 600" by simp
    also have "\<dots> = 2 ^ (2 * 600)" by (simp only: power_mult)
    also have "\<dots> = 2 ^ (1024 + 176)" by simp
    also have "\<dots> = 2 ^ 1024 * 2 ^ 176" by (simp only: power_add)
    finally show ?thesis .
  qed
  moreover have "(1200::real) \<le> 2 ^ 176" by simp
  ultimately have "(2::real) ^ 1024 \<le> real ((1200::nat) choose 600)"
  proof -
    assume a: "(4::real) ^ 600 / (2 * real 600) \<le> real ((2 * 600) choose 600)"
      and b: "(4::real) ^ 600 = 2 ^ 1024 * 2 ^ 176" and c: "(1200::real) \<le> 2 ^ 176"
    have "(2::real) ^ 1024 * 1200 \<le> 2 ^ 1024 * 2 ^ 176"
      using c by (intro mult_left_mono) simp_all
    then have "(2::real) ^ 1024 \<le> 4 ^ 600 / 1200"
      unfolding b by (simp add: pos_le_divide_eq)
    with a show ?thesis by simp
  qed
  then have "real ((2::nat) ^ 1024) \<le> real ((1200::nat) choose 600)" by simp
  then show ?thesis by (simp only: of_nat_le_iff)
qed

lemma branch_decision_big: "branch_decision lib_rotate 600 n_samples = Inl OverflowError"
  using central_binomial_600 by (simp add: branch_decision_def lib_rotate_def binom_f64_def)

lemma p_decision_error:
  assumes t: "init x y a b nm = Inr t"
    and n: "length (rows x) = n" "length (rows y) = n"
    and d: "branch_decision l n n_samples = Inl e"
  shows "p l t n_samples False k = (Inl e, k)"
proof -
  note f = init_Inr [OF t]
  from observed_exists [OF t n(1)] obtain s where s: "s_XAB t (arange n) = Inr s" by blast
  have c: "concatenate x y = Inr \<lparr>ncols = ncols x, rows = rows x @ rows y\<rparr>"
    by (simp add: concatenate_def f)
  show ?thesis
    unfolding p_def using n s d by (simp add: c f Let_def)
qed

text \<open>
  Claim C6, as amended. The branch decision of \<^verbatim>\<open>p\<close> compares
  \<^verbatim>\<open>int(scipy.special.binom(2n, n))\<close>, computed in float64, with \<open>n_samples\<close>. Whenever
  that float64 is the exact coefficient \<open>C(2n, n)\<close>, the exact enumeration is what runs
  exactly when \<open>C(2n, n) \<le> n_samples\<close>, and the sampling loop runs otherwise.
\<close>

theorem branch_selection:
  assumes "init x y a b nm = Inr t" "length (rows x) = n" "length (rows y) = n"
    and "s_XAB t (arange n) = Inr s"
    and "binom l (2 * n) n = Fin (real ((2 * n) choose n))"
  shows "branch_decision l n n_samples = Inr (\<not> int ((2 * n) choose n) \<le> n_samples) \<and>
         p l t n_samples False k =
           (case (if int ((2 * n) choose n) \<le> n_samples
                  then (exact_loop t s (2 * n) (combinations (arange (2 * n)) n) (0, 0, 0), k)
                  else sample_loop l t s n (2 * n) (nat (n_samples - 1)) (1, 0, 1) k)
            of (Inl e, k') \<Rightarrow> (Inl e, k')
             | (Inr (total_true, total_equal, total_all), k') \<Rightarrow>
                 (py_truediv total_true total_all, k'))"
proof -
  have d: "branch_decision l n n_samples = Inr (\<not> int ((2 * n) choose n) \<le> n_samples)"
    using branch_decision_exact [OF assms(5), of n_samples] by (simp add: not_le)
  show ?thesis
    using d p_nonparametric [OF assms(1-4) d, of k] by (simp add: if_distrib [of Not] cong: if_cong)
qed

text \<open>
  Claim C6 as stated fails: with 600 targets in each set, \<^verbatim>\<open>scipy.special.binom\<close>
  overflows to \<^verbatim>\<open>inf\<close>, the conversion to \<^verbatim>\<open>int\<close> raises \<^verbatim>\<open>OverflowError\<close> and neither
  branch is selected, although \<open>C(1200, 600) > 10000\<close> calls for the sampling branch.
\<close>

theorem branch_selection_counterexample:
  "init big_X big_Y scenario_A scenario_B None = Inr big_instance \<and>
   branch_decision lib_rotate 600 10000 = Inl OverflowError \<and>
   branch_decision lib_rotate 600 10000 \<noteq> Inr (\<not> int ((2 * 600) choose 600) \<le> 10000) \<and>
   p lib_rotate big_instance 10000 False 0 = (Inl OverflowError, 0)"
proof -
  have r: "length (rows big_X) = 600" "length (rows big_Y) = 600"
    by (simp_all add: big_X_def big_Y_def)
  from p_decision_error [OF init_big r branch_decision_big]
  have "p lib_rotate big_instance 10000 False 0 = (Inl OverflowError, 0)" .
  then show ?thesis using init_big branch_decision_big by simp
qed

theorem branch_selection_witness:
  "init scenario_X scenario_Y scenario_A scenario_B None = Inr scenario \<and>
   length (rows scenario_X) = 2 \<and> length (rows scenario_Y) = 2 \<and>
   s_XAB scenario (arange 2) = Inr (Fin 2) \<and>
   binom lib_rotate (2 * 2) 2 = Fin (real ((2 * 2) choose 2)) \<and>
   branch_decision lib_rotate 2 5 = Inr True \<and> branch_decision lib_rotate 2 6 = Inr False"
proof -
  from branch_selection [OF init_scenario scenario_rows scenario_observed binom_rotate_4_2, of 5]
  have "branch_decision lib_rotate 2 5 = Inr True" by (simp add: choose_4_2)
  moreover
  from branch_selection [OF init_scenario scenario_rows scenario_observed binom_rotate_4_2, of 6]
  have "branch_decision lib_rotate 2 6 = Inr False" by (simp add: choose_4_2)
  ultimately show ?thesis
    using init_scenario scenario_rows scenario_observed binom_rotate_4_2
    by (intro conjI) assumption+
qed

text \<open>
  Claim C1 as stated fails: with 600 targets in each set and \<open>n_samples = C(1200, 600)\<close>
  the number of partitions is at most \<open>n_samples\<close>, but \<^verbatim>\<open>scipy.special.binom\<close>
  overflows to \<^verbatim>\<open>inf\<close> and \<^verbatim>\<open>p\<close> raises \<^verbatim>\<open>OverflowError\<close> instead of returning the
  quotient.
\<close>

theorem exact_branch_counterexample:
  "init big_X big_Y scenario_A scenario_B None = Inr big_instance \<and>
   length (rows big_X) = 600 \<and> length (rows big_Y) = 600 \<and>
   int ((2 * 600) choose 600) \<le> int ((2 * 600) choose 600) \<and>
   p lib_rotate big_instance (int ((2 * 600) choose 600)) False 0 = (Inl OverflowError, 0)"
proof -
  have r: "length (rows big_X) = 600" "length (rows big_Y) = 600"
    by (simp_all add: big_X_def big_Y_def)
  have c: "int ((2 * 600) choose 600) \<le> int ((2 * 600) choose 600)" by (rule order_refl)
  from p_decision_error [OF init_big r branch_decision_big]
  have "p lib_rotate big_instance (int ((2 * 600) choose 600)) False 0 = (Inl OverflowError, 0)" .
  with init_big r c show ?thesis by (intro conjI) assumption+
qed

section \<open>The effect size\<close>


lemma init_uneven: "init scenario_X single_Y scenario_A scenario_B None = Inr uneven_instance"
proof -
  have n: "normalize_row [1, 0] = [1, 0]" "normalize_row [0, 1] = [0, 1]"
    "normalize_row [-1, 0] = [-1, 0]"
    by (simp_all add: normalize_unit dot_def)
  show ?thesis
    by (simp add: init_def reset_calc_def similarities_def concatenate_def cosine_similarity_def
      scenario_X_def single_Y_def scenario_A_def scenario_B_def n dot_def
      calc_s_AB_def s_wAB_def arange_def upt_rec [of 0] upt_rec [of 1] upt_rec [of 2]
      np_mean_def np_sum_def np_sub_def uneven_instance_def)
qed

lemma s_wAB_in_range:
  "\<forall>i\<in>set w. i < length (similarity_matrix t) \<Longrightarrow>
     s_wAB t w = Inr (map (\<lambda>i. row_assoc (length (rows (A t))) (similarity_matrix t ! i)) w)"
  by (auto simp: s_wAB_def row_assoc_def)

lemma effect_size_constructed:
  assumes t: "init x y a b nm = Inr t"
  shows "effect_size t = Inr (np_div
     (np_sub (np_mean (map (\<lambda>i. s_AB t ! i) (arange (length (rows x)))))
             (np_mean (map (\<lambda>i. s_AB t ! i)
                (arange2 (length (rows x)) (length (rows x) + length (rows y))))))
     (np_std (s_AB t)))"
proof -
  note f = init_Inr [OF t]
  have l: "length (similarity_matrix t) = length (rows x) + length (rows y)"
    by (simp add: f(8))
  have r1: "\<forall>i\<in>set (arange (length (rows x))). i < length (similarity_matrix t)"
    by (simp add: l arange_def)
  have r2: "\<forall>i\<in>set (arange2 (length (rows x)) (length (rows x) + length (rows y))).
      i < length (similarity_matrix t)"
    by (simp add: arange2_def l)
  have e: "\<And>w. \<forall>i\<in>set w. i < length (similarity_matrix t) \<Longrightarrow>
      s_wAB t w = Inr (map (\<lambda>i. s_AB t ! i) w)"
  proof -
    fix w assume w: "\<forall>i\<in>set w. i < length (similarity_matrix t)"
    have "map (\<lambda>i. row_assoc (length (rows (A t))) (similarity_matrix t ! i)) w =
      map (\<lambda>i. s_AB t ! i) w"
      using w by (simp add: f(9) f(3))
    with s_wAB_in_range [OF w] show "s_wAB t w = Inr (map (\<lambda>i. s_AB t ! i) w)" by simp
  qed
  have e1: "s_wAB t (arange (length (rows (X t)))) =
      Inr (map (\<lambda>i. s_AB t ! i) (arange (length (rows x))))"
    using e [OF r1] by (simp add: f(1))
  have e2: "s_wAB t (arange2 (length (rows (X t))) (length (similarity_matrix t))) =
      Inr (map (\<lambda>i. s_AB t ! i) (arange2 (length (rows x)) (length (rows x) + length (rows y))))"
    using e [OF r2] by (simp add: f(1) l)
  show ?thesis
    unfolding effect_size_def e1 e2 by simp
qed







section \<open>Precondition failures\<close>

lemma init_dimension_mismatch:
  "ncols x \<noteq> ncols y \<or> ncols a \<noteq> ncols b \<or> ncols x \<noteq> ncols a \<Longrightarrow>
     init x y a b nm = Inl ValueError"
  by (auto simp: init_def reset_calc_def similarities_def concatenate_def cosine_similarity_def)

lemma init_no_targets: "rows x = [] \<Longrightarrow> rows y = [] \<Longrightarrow> init x y a b nm = Inl ValueError"
  by (simp add: init_def reset_calc_def similarities_def concatenate_def cosine_similarity_def)

lemma init_no_attributes: "rows a = [] \<Longrightarrow> rows b = [] \<Longrightarrow> init x y a b nm = Inl ValueError"
  by (simp add: init_def reset_calc_def similarities_def concatenate_def cosine_similarity_def)

lemma p_uneven:
  assumes "init x y a b nm = Inr t" "length (rows x) \<noteq> length (rows y)"
  shows "p l t n_samples parametric k = (Inl AssertionError, k)"
  using assms(2) by (simp add: p_def init_Inr(1,2) [OF assms(1)])

lemma run_uneven:
  assumes "init x y a b nm = Inr t" "length (rows x) \<noteq> length (rows y)"
  shows "run l t False n_samples parametric k = (Inl AssertionError, t, k)"
  by (simp add: run_def p_uneven [OF assms])

text \<open>
  Claim C8, as amended. The constructor fails with \<^verbatim>\<open>ValueError\<close> when the embedding
  dimensions of the four sets differ, when \<open>X\<close> and \<open>Y\<close> are both empty, and when \<open>A\<close> and
  \<open>B\<close> are both empty. On an instance that the constructor built with \<open>|X| \<noteq> |Y|\<close>, the
  significance computation \<^verbatim>\<open>p\<close> fails with \<^verbatim>\<open>AssertionError\<close> before it draws or
  computes anything, and \<^verbatim>\<open>run\<close> with \<^verbatim>\<open>randomized=False\<close> passes the failure on with
  the instance unchanged.
\<close>

theorem precondition_failures:
  "(ncols x \<noteq> ncols y \<or> ncols a \<noteq> ncols b \<or> ncols x \<noteq> ncols a \<longrightarrow>
      init x y a b nm = Inl ValueError) \<and>
   (rows x = [] \<and> rows y = [] \<longrightarrow> init x y a b nm = Inl ValueError) \<and>
   (rows a = [] \<and> rows b = [] \<longrightarrow> init x y a b nm = Inl ValueError) \<and>
   (init x y a b nm = Inr t \<and> length (rows x) \<noteq> length (rows y) \<longrightarrow>
      p l t n_samples parametric k = (Inl AssertionError, k) \<and>
      run l t False n_samples parametric k = (Inl AssertionError, t, k))"
proof (intro conjI impI)
  assume "ncols x \<noteq> ncols y \<or> ncols a \<noteq> ncols b \<or> ncols x \<noteq> ncols a"
  then show "init x y a b nm = Inl ValueError" by (rule init_dimension_mismatch)
next
  assume "rows x = [] \<and> rows y = []"
  then show "init x y a b nm = Inl ValueError" by (simp add: init_no_targets)
next
  assume "rows a = [] \<and> rows b = []"
  then show "init x y a b nm = Inl ValueError" by (simp add: init_no_attributes)
next
  assume "init x y a b nm = Inr t \<and> length (rows x) \<noteq> length (rows y)"
  then show "p l t n_samples parametric k = (Inl AssertionError, k)"
    using p_uneven by blast
next
  assume "init x y a b nm = Inr t \<and> length (rows x) \<noteq> length (rows y)"
  then show "run l t False n_samples parametric k = (Inl AssertionError, t, k)"
    using run_uneven by blast
qed

theorem precondition_failures_witness:
  "ncols wide_X \<noteq> ncols scenario_Y \<and>
   init wide_X scenario_Y scenario_A scenario_B None = Inl ValueError \<and>
   rows empty_A = [] \<and>
   init empty_A empty_A scenario_A scenario_B None = Inl ValueError \<and>
   init scenario_X scenario_Y empty_A empty_A None = Inl ValueError \<and>
   init scenario_X single_Y scenario_A scenario_B None = Inr uneven_instance \<and>
   length (rows scenario_X) \<noteq> length (rows single_Y) \<and>
   p lib_rotate uneven_instance 10000 False 0 = (Inl AssertionError, 0) \<and>
   run lib_rotate uneven_instance False 10000 False 0 = (Inl AssertionError, uneven_instance, 0)"
proof -
  have h: "ncols wide_X \<noteq> ncols scenario_Y" "rows empty_A = []"
    "length (rows scenario_X) \<noteq> length (rows single_Y)"
    by (simp_all add: wide_X_def scenario_Y_def empty_A_def scenario_X_def single_Y_def)
  from precondition_failures [of wide_X scenario_Y scenario_A scenario_B None] h(1)
  have 1: "init wide_X scenario_Y scenario_A scenario_B None = Inl ValueError" by blast
  from precondition_failures [of empty_A empty_A scenario_A scenario_B None] h(2)
  have 2: "init empty_A empty_A scenario_A scenario_B None = Inl ValueError" by blast
  from precondition_failures [of scenario_X scenario_Y empty_A empty_A None] h(2)
  have 3: "init scenario_X scenario_Y empty_A empty_A None = Inl ValueError" by blast
  from precondition_failures [of scenario_X single_Y scenario_A scenario_B None uneven_instance
      lib_rotate 10000 False 0] init_uneven h(3)
  have 4: "p lib_rotate uneven_instance 10000 False 0 = (Inl AssertionError, 0)"
    "run lib_rotate uneven_instance False 10000 False 0 = (Inl AssertionError, uneven_instance, 0)"
    by blast+
  show ?thesis using h 1 2 3 init_uneven 4 by (intro conjI) assumption+
qed

lemma effect_size_no_A: "effect_size no_A_instance = Inr NaN"
  unfolding effect_size_constructed [OF init_no_A]
  by (simp add: no_A_instance_def single_X_def single_Y_def arange_def arange2_def np_mean_def
      np_sum_def np_sub_def np_std_def upt_rec [of 0] upt_rec [of 1])

text \<open>
  Claim C8 as stated fails for a single empty set: with \<open>A\<close> of shape \<open>(0, 2)\<close> and the
  other three sets non-empty the constructor succeeds, and \<^verbatim>\<open>run\<close> returns the pair
  \<open>(nan, 0)\<close> without any failure.
\<close>

theorem precondition_counterexample:
  "rows empty_A = [] \<and>
   init single_X single_Y empty_A single_B None = Inr no_A_instance \<and>
   run lib_rotate no_A_instance False 10000 False 0 = (Inr (NaN, Fin 0), no_A_instance, 0)"
proof -
  have "run lib_rotate no_A_instance False 10000 False 0 = (Inr (NaN, Fin 0), no_A_instance, 0)"
    by (simp add: run_def p_no_A effect_size_no_A)
  then show ?thesis using init_no_A by (simp add: empty_A_def)
qed

section \<open>The driver\<close>

lemma similarities_cong:
  "X t' = X t \<Longrightarrow> Y t' = Y t \<Longrightarrow> A t' = A t \<Longrightarrow> B t' = B t \<Longrightarrow> similarities t' = similarities t"
  by (simp add: similarities_def split: sum.splits)

lemma init_similarities:
  assumes "init x y a b nm = Inr t"
  shows "similarities t = Inr (similarity_matrix t)"
    and "s_AB t = map (row_assoc (length (rows (A t)))) (similarity_matrix t)"
proof -
  let ?t0 = "\<lparr>X = x, Y = y, A = a, B = b,
       names = (case nm of None \<Rightarrow> [''X'', ''Y'', ''A'', ''B''] | Some ns \<Rightarrow> ns),
       similarity_matrix = [], s_AB = []\<rparr>"
  from assms have "reset_calc ?t0 = Inr t" by (simp add: init_def)
  from reset_calc_Inr [OF this] obtain m where m: "similarities ?t0 = Inr m"
    and t: "t = ?t0\<lparr>similarity_matrix := m, s_AB := map (row_assoc (length (rows (A ?t0)))) m\<rparr>"
    by blast
  have "similarities t = similarities ?t0" by (rule similarities_cong) (simp_all add: t)
  with m t show "similarities t = Inr (similarity_matrix t)" by simp
  from t show "s_AB t = map (row_assoc (length (rows (A t)))) (similarity_matrix t)" by simp
qed

lemma reset_calc_restores:
  assumes t: "init x y a b nm = Inr t"
    and n: "names t1 = names t"
    and r: "reset_calc (t1\<lparr>X := X t, Y := Y t, A := A t, B := B t\<rparr>) = Inr t4"
  shows "t4 = t"
proof -
  let ?t3 = "t1\<lparr>X := X t, Y := Y t, A := A t, B := B t\<rparr>"
  from reset_calc_Inr [OF r] obtain m where m: "similarities ?t3 = Inr m"
    and t4: "t4 = ?t3\<lparr>similarity_matrix := m, s_AB := map (row_assoc (length (rows (A ?t3)))) m\<rparr>"
    by blast
  have "similarities ?t3 = similarities t" by (rule similarities_cong) simp_all
  with m init_similarities(1) [OF t] have m': "m = similarity_matrix t" by simp
  show ?thesis
    unfolding t4 m' using n init_similarities(2) [OF t] by simp
qed

lemma reset_calc_names: "reset_calc t0 = Inr t \<Longrightarrow> names t = names t0"
  using reset_calc_Inr [of t0 t] by auto

lemma randomize_names: "randomize l t k = (Inr t2, t', k') \<Longrightarrow> names t2 = names t"
  by (auto simp: randomize_def Let_def split: sum.splits dest!: reset_calc_names)

lemma run_randomized_restores:
  assumes t: "init x y a b nm = Inr t"
    and r: "run l t True n_samples parametric k = (Inr res, t', k')"
  shows "t' = t"
proof -
  from r obtain t2 ta k1 where rz: "randomize l t k = (Inr t2, ta, k1)"
    by (cases "randomize l t k") (auto simp: run_def split: sum.splits)
  from r rz obtain pv k2 where pv: "p l t2 n_samples parametric k1 = (Inr pv, k2)"
    by (cases "p l t2 n_samples parametric k1") (auto simp: run_def split: sum.splits)
  from r rz pv obtain ev where ev: "effect_size t2 = Inr ev"
    by (auto simp: run_def split: sum.splits)
  from r rz pv ev have "reset_calc (t2\<lparr>X := X t, Y := Y t, A := A t, B := B t\<rparr>) = Inr t'"
    by (auto simp: run_def Let_def split: sum.splits)
  from reset_calc_restores [OF t randomize_names [OF rz] this] show ?thesis .
qed

lemma run_plain_state: "run l t False n_samples parametric k = (res, t', k') \<Longrightarrow> t' = t"
  by (auto simp: run_def split: sum.splits prod.splits)

lemma p_exact_rng:
  assumes d: "branch_decision l (length (rows (X t))) n_samples = Inr False"
  shows "snd (p l t n_samples False k) = k"
    and "fst (p l t n_samples False k) = fst (p l t n_samples False k0)"
  using d by (auto simp: p_def Let_def split: sum.splits prod.splits)

lemma run_plain_exact:
  assumes d: "branch_decision l (length (rows (X t))) n_samples = Inr False"
  shows "run l t False n_samples False k =
     (fst (run l t False n_samples False k0), t, k)"
proof -
  obtain r k1 where pk: "p l t n_samples False k = (r, k1)" by (cases "p l t n_samples False k")
  obtain r0 k2 where p0: "p l t n_samples False k0 = (r0, k2)" by (cases "p l t n_samples False k0")
  from p_exact_rng(1) [OF d, of k] p_exact_rng(2) [OF d, of k k0] pk p0
  have "k1 = k" "r = r0" by simp_all
  with pk p0 show ?thesis
    by (auto simp: run_def split: sum.splits)
qed

lemma unit_rows:
  "normalize_row [1, 0] = [1, 0]" "normalize_row [0, 1] = [0, 1]"
  "normalize_row [-1, 0] = [-1, 0]" "normalize_row [0, -1] = [0, -1]"
  by (simp_all add: normalize_unit dot_def)

lemma init_shuffled:
  "init \<lparr>ncols = 2, rows = [[0, 1], [-1, 0]]\<rparr> \<lparr>ncols = 2, rows = [[0, -1], [1, 0]]\<rparr>
        \<lparr>ncols = 2, rows = [[-1, 0]]\<rparr> \<lparr>ncols = 2, rows = [[1, 0]]\<rparr> None = Inr shuffled_scenario"
  by (simp add: init_def reset_calc_def similarities_def concatenate_def cosine_similarity_def
      unit_rows dot_def calc_s_AB_def s_wAB_def arange_def
      upt_rec [of 0] upt_rec [of 1] upt_rec [of 2] upt_rec [of 3]
      np_mean_def np_sum_def np_sub_def shuffled_scenario_def)

lemma rotate_1_6: "rotate (Suc 0) [0..<6] = [1, 2, 3, 4, 5, 0]"
  by code_simp

lemma randomize_scenario:
  "randomize lib_rotate scenario 1 = (Inr shuffled_scenario, shuffled_scenario, 2)"
proof -
  let ?t1 = "scenario\<lparr>X := \<lparr>ncols = 2, rows = [[0, 1], [-1, 0]]\<rparr>,
     Y := \<lparr>ncols = 2, rows = [[0, -1], [1, 0]]\<rparr>,
     A := \<lparr>ncols = 2, rows = [[-1, 0]]\<rparr>,
     B := \<lparr>ncols = 2, rows = [[1, 0]]\<rparr>\<rparr>"
  have r: "reset_calc ?t1 = Inr shuffled_scenario"
    by (simp add: reset_calc_def similarities_def concatenate_def cosine_similarity_def
      unit_rows dot_def calc_s_AB_def s_wAB_def arange_def scenario_def
      upt_rec [of 0] upt_rec [of 1] upt_rec [of 2] upt_rec [of 3]
      np_mean_def np_sum_def np_sub_def shuffled_scenario_def)
  have c: "concatenate4 (X scenario) (Y scenario) (A scenario) (B scenario) =
      Inr \<lparr>ncols = 2, rows = [[1, 0], [0, 1], [-1, 0], [0, -1], [1, 0], [-1, 0]]\<rparr>"
    by (simp add: concatenate4_def scenario_def scenario_X_def scenario_Y_def scenario_A_def
        scenario_B_def)
  have s: "shuffle lib_rotate (Suc 0) [[1, 0], [0, 1], [-1, 0], [0, -1], [1, 0], [-1::real, 0]] =
      [[0, 1], [-1, 0], [0, -1], [1, 0], [-1, 0], [1, 0]]"
    by (simp add: shuffle_def lib_rotate_def rotate_1_6)
  have x: "length (rows (X scenario)) = 2" "length (rows (A scenario)) = 1"
    by (simp_all add: scenario_def scenario_X_def scenario_A_def)
  show ?thesis
    unfolding randomize_def c
    by (simp add: s x slice_rows_def slice_from_def r Let_def)
qed

lemma effect_size_scenario: "effect_size scenario = Inr (Fin (2 / sqrt (8 / 3)))"
  by (simp add: scenario_effect_size scenario_std)

lemma effect_size_shuffled: "effect_size shuffled_scenario = Inr (Fin (2 / sqrt (8 / 3)))"
proof -
  have "np_std [Fin 0, Fin 2, Fin 0, Fin (-2)] = Fin (sqrt (8 / 3))"
    by (simp add: np_std_def np_mean_def np_sum_def np_sub_def)
  then show ?thesis
    by (simp add: effect_size_def s_wAB_def shuffled_scenario_def
      arange_def arange2_def upt_rec [of 0] upt_rec [of 1] upt_rec [of 2] upt_rec [of 3]
      np_mean_def np_sum_def np_sub_def)
qed

lemma p_shuffled: "p lib_rotate shuffled_scenario 10000 False k = (Inr (Fin (1 / 3)), k)"
proof -
  have s: "s_XAB shuffled_scenario (arange 2) = Inr (Fin 2)"
    by (simp add: s_XAB_def shuffled_scenario_def arange_def eval_nat_numeral upt_rec np_sum_def)
  have d: "branch_decision lib_rotate 2 10000 = Inr False"
    using branch_decision_exact [OF binom_rotate_4_2, of 10000] by (simp add: choose_4_2)
  have e: "filter (extreme shuffled_scenario (Fin 2))
      [[0, 1], [0, 2], [0, 3], [1, 2], [1, 3], [2, 3]] = [[0, 1], [1, 2]]"
    by (simp add: extreme_def s_XAB_def shuffled_scenario_def np_sum_def np_eq_def)
  have four: "2 * 2 = (4::nat)" by simp
  show ?thesis
    unfolding p_exact [OF init_shuffled _ _ s d, simplified] four combinations_4_2 e choose_4_2
    by simp
qed

lemma p_scenario_exact: "p lib_rotate scenario 10000 False k = (Inr (Fin (1 / 3)), k)"
proof -
  have d: "branch_decision lib_rotate 2 10000 = Inr False"
    using branch_decision_exact [OF binom_rotate_4_2, of 10000] by (simp add: choose_4_2)
  have four: "2 * 2 = (4::nat)" by simp
  show ?thesis
    unfolding p_exact [OF init_scenario scenario_rows scenario_observed d] four
      combinations_4_2 scenario_extreme choose_4_2
    by simp
qed

lemma reset_calc_scenario:
  "reset_calc (shuffled_scenario\<lparr>X := X scenario, Y := Y scenario, A := A scenario,
      B := B scenario\<rparr>) = Inr scenario"
  by (simp add: reset_calc_def similarities_def concatenate_def cosine_similarity_def
      unit_rows dot_def calc_s_AB_def s_wAB_def arange_def scenario_def shuffled_scenario_def
      scenario_X_def scenario_Y_def scenario_A_def scenario_B_def
      upt_rec [of 0] upt_rec [of 1] upt_rec [of 2] upt_rec [of 3]
      np_mean_def np_sum_def np_sub_def)

lemma run_randomized_scenario:
  "run lib_rotate scenario True 10000 False 1 =
     (Inr (Fin (2 / sqrt (8 / 3)), Fin (1 / 3)), scenario, 2)"
proof -
  have r: "randomize lib_rotate scenario (Suc 0) = (Inr shuffled_scenario, shuffled_scenario, 2)"
    using randomize_scenario by simp
  show ?thesis
    by (simp add: run_def r p_shuffled effect_size_shuffled reset_calc_scenario)
qed

lemma run_plain_scenario:
  "run lib_rotate scenario False 10000 False k =
     (Inr (Fin (2 / sqrt (8 / 3)), Fin (1 / 3)), scenario, k)"
  by (simp add: run_def p_scenario_exact effect_size_scenario)

lemma drawn_rotate_0: "drawn lib_rotate 2 (2 * 2) 0 0 = [0, 1]"
  by code_simp

lemma rotate_1_4: "rotate (Suc 0) [0..<4] = [1, 2, 3, 0]"
  by code_simp

lemma drawn_rotate_1: "drawn lib_rotate 2 (2 * 2) (Suc 0) 0 = [1, 2]"
  by code_simp

lemma p_scenario_two_0: "p lib_rotate scenario 2 False 0 = (Inr (Fin 1), 1)"
proof -
  have e: "extreme scenario (Fin 2) [0, 1]"
    by (simp add: extreme_def s_XAB_def scenario_def np_sum_def np_eq_def)
  have u: "[0..<nat (2 - 1)] = [0]" by simp
  show ?thesis
    unfolding p_scenario_sampling [of 2 0, simplified] u
    using e by (simp add: drawn_rotate_0 [simplified])
qed

lemma p_scenario_two_1: "p lib_rotate scenario 2 False 1 = (Inr (Fin (1 / 2)), 2)"
proof -
  have e: "\<not> extreme scenario (Fin 2) [1, 2]"
    by (simp add: extreme_def s_XAB_def scenario_def np_sum_def np_eq_def)
  show ?thesis
    using p_scenario_sampling [of 2 1] e by (simp add: drawn_rotate_1 [simplified])
qed

text \<open>
  Claim C9, as amended. Let \<open>t\<close> be an instance built by the constructor. Whenever
  \<^verbatim>\<open>run(randomized=True)\<close> returns, it has put back \<open>X\<close>, \<open>Y\<close>, \<open>A\<close>, \<open>B\<close> and recomputed
  the similarity matrix and the association vector, and the instance after the call
  equals the instance before it. Two successive calls of \<^verbatim>\<open>run\<close> without randomization
  leave the instance unchanged and return the same effect size; when the exact branch
  of the non-parametric test is the one taken, the second call returns the same result
  as the first, p-value included.
\<close>

theorem run_restores_and_repeats:
  assumes "init x y a b nm = Inr t"
  shows "(run l t True n_samples parametric k = (Inr res, t', k') \<longrightarrow> t' = t) \<and>
         (run l t False n_samples parametric k = (Inr (e1, p1), t1, k1) \<and>
          run l t1 False n_samples parametric k1 = (Inr (e2, p2), t2, k2) \<longrightarrow>
            t1 = t \<and> t2 = t \<and> e2 = e1) \<and>
         (branch_decision l (length (rows x)) n_samples = Inr False \<and>
          run l t False n_samples False k = (r1, t1, k1) \<longrightarrow>
            run l t1 False n_samples False k1 = (r1, t1, k1))"
proof (intro conjI impI)
  assume "run l t True n_samples parametric k = (Inr res, t', k')"
  then show "t' = t" by (rule run_randomized_restores [OF assms])
next
  assume a: "run l t False n_samples parametric k = (Inr (e1, p1), t1, k1) \<and>
          run l t1 False n_samples parametric k1 = (Inr (e2, p2), t2, k2)"
  then show t1: "t1 = t" using run_plain_state by blast
  from a t1 show "t2 = t" using run_plain_state by blast
  from a t1 have "effect_size t = Inr e1" "effect_size t = Inr e2"
    by (auto simp: run_def split: sum.splits prod.splits)
  then show "e2 = e1" by simp
next
  assume a: "branch_decision l (length (rows x)) n_samples = Inr False \<and>
          run l t False n_samples False k = (r1, t1, k1)"
  then have d: "branch_decision l (length (rows (X t))) n_samples = Inr False"
    by (simp add: init_Inr(1) [OF assms])
  from a run_plain_exact [OF d, of k k] have "t1 = t" "k1 = k" by simp_all
  with a show "run l t1 False n_samples False k1 = (r1, t1, k1)" by simp
qed

text \<open>
  Claim C9 as stated fails in the sampling branch: on the scenario with \<open>n_samples = 2\<close>
  two successive calls of \<^verbatim>\<open>run\<close> without randomization draw different partitions and
  return the p-values \<open>1\<close> and \<open>1 / 2\<close>.
\<close>

theorem run_repeat_counterexample:
  "run lib_rotate scenario False 2 False 0 = (Inr (Fin (2 / sqrt (8 / 3)), Fin 1), scenario, 1) \<and>
   run lib_rotate scenario False 2 False 1 =
     (Inr (Fin (2 / sqrt (8 / 3)), Fin (1 / 2)), scenario, 2)"
proof -
  have "p lib_rotate scenario 2 False (Suc 0) = (Inr (Fin (1 / 2)), 2)"
    using p_scenario_two_1 by simp
  then show ?thesis
    by (simp add: run_def p_scenario_two_0 effect_size_scenario)
qed

theorem run_restores_and_repeats_witness:
  "init scenario_X scenario_Y scenario_A scenario_B None = Inr scenario \<and>
   run lib_rotate scenario True 10000 False 1 =
     (Inr (Fin (2 / sqrt (8 / 3)), Fin (1 / 3)), scenario, 2) \<and>
   branch_decision lib_rotate (length (rows scenario_X)) 10000 = Inr False \<and>
   run lib_rotate scenario False 10000 False 0 =
     (Inr (Fin (2 / sqrt (8 / 3)), Fin (1 / 3)), scenario, 0)"
proof -
  have d: "branch_decision lib_rotate (length (rows scenario_X)) 10000 = Inr False"
    using branch_decision_exact [OF binom_rotate_4_2, of 10000]
    by (simp add: choose_4_2 scenario_rows)
  from run_restores_and_repeats [OF init_scenario, where l = lib_rotate and n_samples = 10000
      and k = 0 and ?r1.0 = "Inr (Fin (2 / sqrt (8 / 3)), Fin (1 / 3))" and ?t1.0 = scenario
      and ?k1.0 = 0] d run_plain_scenario [of 0]
  have "run lib_rotate scenario False 10000 False 0 =
     (Inr (Fin (2 / sqrt (8 / 3)), Fin (1 / 3)), scenario, 0)" by blast
  then show ?thesis using init_scenario run_randomized_scenario d by (intro conjI) assumption+
qed

text \<open>
  With \<^verbatim>\<open>randomized=True\<close> the assertion is not reached on the instance with \<open>|X| = 2\<close> and
  \<open>|Y| = 1\<close>: the sets are cut anew with two targets each, and the call returns.
\<close>

lemma init_recut:
  "init \<lparr>ncols = 2, rows = [[1, 0], [0, 1]]\<rparr> \<lparr>ncols = 2, rows = [[0, 1], [1, 0]]\<rparr>
        \<lparr>ncols = 2, rows = [[-1, 0]]\<rparr> \<lparr>ncols = 2, rows = []\<rparr> None = Inr recut_uneven"
  by (simp add: init_def reset_calc_def similarities_def concatenate_def cosine_similarity_def
      unit_rows dot_def calc_s_AB_def s_wAB_def arange_def
      upt_rec [of 0] upt_rec [of 1] upt_rec [of 2] upt_rec [of 3]
      np_mean_def np_sum_def np_sub_def recut_uneven_def)

lemma randomize_uneven:
  "randomize lib_rotate uneven_instance 0 = (Inr recut_uneven, recut_uneven, 1)"
proof -
  let ?t1 = "uneven_instance\<lparr>X := \<lparr>ncols = 2, rows = [[1, 0], [0, 1]]\<rparr>,
     Y := \<lparr>ncols = 2, rows = [[0, 1], [1, 0]]\<rparr>,
     A := \<lparr>ncols = 2, rows = [[-1, 0]]\<rparr>,
     B := \<lparr>ncols = 2, rows = []\<rparr>\<rparr>"
  have r: "reset_calc ?t1 = Inr recut_uneven"
    by (simp add: reset_calc_def similarities_def concatenate_def cosine_similarity_def
      unit_rows dot_def calc_s_AB_def s_wAB_def arange_def uneven_instance_def
      upt_rec [of 0] upt_rec [of 1] upt_rec [of 2] upt_rec [of 3]
      np_mean_def np_sum_def np_sub_def recut_uneven_def)
  have c: "concatenate4 (X uneven_instance) (Y uneven_instance) (A uneven_instance)
        (B uneven_instance) =
      Inr \<lparr>ncols = 2, rows = [[1, 0], [0, 1], [0, 1], [1, 0], [-1, 0]]\<rparr>"
    by (simp add: concatenate4_def uneven_instance_def scenario_X_def single_Y_def scenario_A_def
        scenario_B_def)
  have s: "shuffle lib_rotate 0 [[1, 0], [0, 1], [0, 1], [1, 0], [-1::real, 0]] =
      [[1, 0], [0, 1], [0, 1], [1, 0], [-1, 0]]"
    by (simp add: shuffle_def lib_rotate_def upt_rec [of 0] upt_rec [of 1] upt_rec [of 2]
        upt_rec [of 3] upt_rec [of 4])
  have x: "length (rows (X uneven_instance)) = 2" "length (rows (A uneven_instance)) = 1"
    by (simp_all add: uneven_instance_def scenario_X_def scenario_A_def)
  show ?thesis
    unfolding randomize_def c
    by (simp add: s x slice_rows_def slice_from_def r Let_def)
qed

lemma run_randomized_uneven:
  "run lib_rotate uneven_instance True 10000 False 0 = (Inr (NaN, Fin 0), uneven_instance, 1)"
proof -
  have s: "s_XAB recut_uneven (arange 2) = Inr NaN"
    by (simp add: s_XAB_def recut_uneven_def arange_def eval_nat_numeral upt_rec np_sum_def)
  have d: "branch_decision lib_rotate 2 10000 = Inr False"
    using branch_decision_exact [OF binom_rotate_4_2, of 10000] by (simp add: choose_4_2)
  have e: "filter (extreme recut_uneven NaN)
      [[0, 1], [0, 2], [0, 3], [1, 2], [1, 3], [2, 3]] = []"
    by (simp add: extreme_def s_XAB_def recut_uneven_def np_sum_def np_eq_def)
  have four: "2 * 2 = (4::nat)" by simp
  have pv: "p lib_rotate recut_uneven 10000 False (Suc 0) = (Inr (Fin 0), Suc 0)"
    unfolding p_exact [OF init_recut _ _ s d, simplified] four combinations_4_2 e choose_4_2
    by simp
  have ev: "effect_size recut_uneven = Inr NaN"
    by (simp add: effect_size_def s_wAB_def recut_uneven_def
      arange_def arange2_def upt_rec [of 0] upt_rec [of 1] upt_rec [of 2] upt_rec [of 3]
      np_mean_def np_sum_def np_sub_def np_std_def)
  have rs: "reset_calc (recut_uneven\<lparr>X := X uneven_instance, Y := Y uneven_instance,
      A := A uneven_instance, B := B uneven_instance\<rparr>) = Inr uneven_instance"
    by (simp add: reset_calc_def similarities_def concatenate_def cosine_similarity_def
      unit_rows dot_def calc_s_AB_def s_wAB_def arange_def uneven_instance_def recut_uneven_def
      scenario_X_def single_Y_def scenario_A_def scenario_B_def
      upt_rec [of 0] upt_rec [of 1] upt_rec [of 2]
      np_mean_def np_sum_def np_sub_def)
  have rz: "randomize lib_rotate uneven_instance 0 = (Inr recut_uneven, recut_uneven, Suc 0)"
    using randomize_uneven by simp
  show ?thesis
    by (simp add: run_def rz pv ev rs)
qed

section \<open>The parametric test\<close>

lemma s_XYAB_in_range:
  assumes "\<forall>i\<in>set xm. i < length (s_AB t)" "\<forall>i\<in>set ym. i < length (s_AB t)"
  shows "s_XYAB t xm ym = Inr (np_sub (np_sum (map (\<lambda>i. s_AB t ! i) xm))
                                      (np_sum (map (\<lambda>i. s_AB t ! i) ym)))"
  by (simp add: s_XYAB_def s_XAB_in_range [OF assms(1)] s_XAB_in_range [OF assms(2)])

lemma bipartition:
  assumes "valid_rng l"
  shows "length (drawn l n (2 * n) k j) = n" "length (drawn_rest l n (2 * n) k j) = n"
    "distinct (drawn l n (2 * n) k j @ drawn_rest l n (2 * n) k j)"
    "set (drawn l n (2 * n) k j @ drawn_rest l n (2 * n) k j) = {0..<2 * n}"
proof -
  let ?a = "shuffle_draw l (k + j) (2 * n)"
  have d: "drawn l n (2 * n) k j = take n ?a" "drawn_rest l n (2 * n) k j = drop n ?a"
    by (simp_all add: drawn_def drawn_rest_def shuffle_arange [OF assms])
  have a: "distinct ?a" "set ?a = {0..<2 * n}" "length ?a = 2 * n"
    using assms by (simp_all add: valid_rng_def length_shuffle_draw)
  show "length (drawn l n (2 * n) k j) = n" "length (drawn_rest l n (2 * n) k j) = n"
    by (simp_all add: d a)
  show "distinct (drawn l n (2 * n) k j @ drawn_rest l n (2 * n) k j)"
    "set (drawn l n (2 * n) k j @ drawn_rest l n (2 * n) k j) = {0..<2 * n}"
    unfolding d append_take_drop_id by (rule a)+
qed

lemma sample_in_range:
  assumes "valid_rng l" "length (s_AB t) = 2 * n"
  shows "\<exists>si. s_XYAB t (drawn l n (2 * n) k j) (drawn_rest l n (2 * n) k j) = Inr si"
proof -
  have s: "set (drawn l n (2 * n) k j) \<union> set (drawn_rest l n (2 * n) k j) = {0..<2 * n}"
    using bipartition(4) [OF assms(1), of n k j] by simp
  have "\<forall>i\<in>set (drawn l n (2 * n) k j). i < length (s_AB t)"
    "\<forall>i\<in>set (drawn_rest l n (2 * n) k j). i < length (s_AB t)"
    using s assms(2) by auto
  from s_XYAB_in_range [OF this] show ?thesis by blast
qed






end
